theory Spec2Isabelle
  imports Main "HOL-Library.Word"
begin

unbundle bit_operations_syntax

section \<open>Python values and exceptions\<close>

text \<open>
  The values \<^verbatim>\<open>rechner.py\<close> handles: what an \<^verbatim>\<open>ast.Constant\<close> node can hold and what a
  caller can pass as a variable. \<^verbatim>\<open>bool\<close> is kept apart from \<^verbatim>\<open>int\<close> although it is a
  subclass of it in Python (\<^verbatim>\<open>isinstance(True, int)\<close> holds). A float is its IEEE-754 binary64
  bit pattern: the evaluator only passes floats on, their arithmetic belongs to the interpreter.
\<close>

type_synonym float64 = "64 word"

datatype pyval =
    PyBool bool
  | PyInt int
  | PyFloat float64
  | PyComplex float64 float64
  | PyStr string
  | PyBytes string
  | PyNone
  | PyEllipsis

text \<open>\<^verbatim>\<open>isinstance(node.value, (int, float, complex))\<close>; a \<^verbatim>\<open>bool\<close> is an \<^verbatim>\<open>int\<close>.\<close>

fun isinstance_number :: "pyval \<Rightarrow> bool" where
  "isinstance_number (PyBool _) = True"
| "isinstance_number (PyInt _) = True"
| "isinstance_number (PyFloat _) = True"
| "isinstance_number (PyComplex _ _) = True"
| "isinstance_number _ = False"

text \<open>
  A zero: the integer 0, \<^verbatim>\<open>False\<close>, the floats 0.0 and -0.0, and a complex number whose two
  parts are zeros.
\<close>

definition float_is_zero :: "float64 \<Rightarrow> bool" where
  "float_is_zero w = (w = 0 \<or> w = 0x8000000000000000)"

fun is_zero :: "pyval \<Rightarrow> bool" where
  "is_zero (PyBool b) = (\<not> b)"
| "is_zero (PyInt i) = (i = 0)"
| "is_zero (PyFloat w) = float_is_zero w"
| "is_zero (PyComplex re im) = (float_is_zero re \<and> float_is_zero im)"
| "is_zero _ = False"

fun is_complex :: "pyval \<Rightarrow> bool" where
  "is_complex (PyComplex _ _) = True"
| "is_complex _ = False"

text \<open>
  An integer that has no float. The largest float is \<open>2 ^ 1024 - 2 ^ 971\<close>; the integers
  from \<open>2 ^ 1024 - 2 ^ 970\<close> on round past it, and converting one raises
  \<^verbatim>\<open>OverflowError\<close>.
\<close>

fun too_large_for_float :: "pyval \<Rightarrow> bool" where
  "too_large_for_float (PyInt i) = (2 ^ 1024 - 2 ^ 970 \<le> \<bar>i\<bar>)"
| "too_large_for_float _ = False"

text \<open>
  Exceptions. \<^verbatim>\<open>EvalError\<close> is the one class the module declares (a subclass of
  \<^verbatim>\<open>ValueError\<close>); \<^verbatim>\<open>TypeError\<close> is raised by \<^verbatim>\<open>evaluate\<close> itself and by the
  interpreter; the others are raised by the interpreter only. \<^verbatim>\<open>ZeroDivisionError\<close> carries no
  message here, since its text differs between interpreter versions.
\<close>

datatype exn =
    EvalError string
  | TypeError string
  | SyntaxError string
  | ZeroDivisionError
  | ValueError string
  | OtherException string string

text \<open>The name of the class of an exception, and the test that a call raised class \<open>c\<close>.\<close>

fun exn_class :: "exn \<Rightarrow> string" where
  "exn_class (EvalError _) = ''EvalError''"
| "exn_class (TypeError _) = ''TypeError''"
| "exn_class (SyntaxError _) = ''SyntaxError''"
| "exn_class ZeroDivisionError = ''ZeroDivisionError''"
| "exn_class (ValueError _) = ''ValueError''"
| "exn_class (OtherException c _) = c"

definition raises :: "string \<Rightarrow> exn + 'a \<Rightarrow> bool" where
  "raises c r = (case r of Inl x \<Rightarrow> exn_class x = c | Inr _ \<Rightarrow> False)"

section \<open>The syntax tree of module ast\<close>

text \<open>
  The node classes of Python's \<^verbatim>\<open>ast\<close> module, typed as its abstract grammar types them.
  The classes the program names have a constructor of their own; an expression node of any
  other class (\<^verbatim>\<open>Lambda\<close>, \<^verbatim>\<open>IfExp\<close>, \<^verbatim>\<open>Compare\<close>, \<^verbatim>\<open>Subscript\<close>, \<^verbatim>\<open>List\<close>,
  \<^verbatim>\<open>Starred\<close>, ...) is \<open>OtherExpr\<close> with its class name and child nodes. Literals are
  \<^verbatim>\<open>Constant\<close> nodes, as the parser builds them from Python 3.8 on.
\<close>

datatype operator =
    Add | Sub | Mult | MatMult | Div | Mod | Pow_op
  | LShift | RShift | BitOr | BitXor | BitAnd | FloorDiv

datatype unaryop = Invert | Not_op | UAdd | USub

datatype expr_context = Load | Store | Del

datatype expr =
    Constant pyval
  | Name string expr_context
  | UnaryOp unaryop expr
  | BinOp expr operator expr
  | Call expr "expr list" "keyword list"
  | Attribute expr string expr_context
  | Tuple "expr list" expr_context
  | OtherExpr string "expr list"
and keyword = Keyword "string option" expr

text \<open>Any node, as \<^verbatim>\<open>ast.walk\<close> yields them: operators and contexts are nodes too.\<close>

datatype ast =
    Expression expr
  | ExprNode expr
  | OperatorNode operator
  | UnaryopNode unaryop
  | ContextNode expr_context
  | KeywordNode keyword

section \<open>The interpreter and its library\<close>

text \<open>
  What the program takes from outside the repository: the parser \<^verbatim>\<open>ast.parse(expr, mode="eval")\<close>
  (the body of the \<^verbatim>\<open>Expression\<close> it returns, or the exception it raises), \<^verbatim>\<open>repr\<close> of a
  value and \<^verbatim>\<open>str\<close> of a node class (by class name), the attributes of module \<^verbatim>\<open>math\<close>
  (functions applied to an argument list, and constants), the arithmetic of module
  \<^verbatim>\<open>operator\<close> where it is not written out below, and the text of the \<^verbatim>\<open>TypeError\<close> for an
  operator that is not defined on its operands. Every theorem below holds for each such
  interpreter.
\<close>

record interp =
  ast_parse :: "string \<Rightarrow> exn + expr"
  repr :: "pyval \<Rightarrow> string"
  str_type :: "string \<Rightarrow> string"
  math_function :: "string \<Rightarrow> pyval list \<Rightarrow> exn + pyval"
  math_constant :: "string \<Rightarrow> pyval"
  float_binop :: "operator \<Rightarrow> pyval \<Rightarrow> pyval \<Rightarrow> exn + pyval"
  float_unaryop :: "unaryop \<Rightarrow> pyval \<Rightarrow> exn + pyval"
  operand_type_error :: "operator \<Rightarrow> pyval \<Rightarrow> pyval \<Rightarrow> string"

section \<open>Integer arithmetic of module operator\<close>

text \<open>
  Python's integers are unbounded, and a \<^verbatim>\<open>bool\<close> operand counts as the integer 0 or 1.
  Where both operands are integers and the result is one, the operator functions are written
  out, and so is division by zero; every other case is the interpreter's \<open>float_binop\<close>.
  Memory limits of the interpreter (a shift or power too large to store) are not modelled.
\<close>

fun as_int :: "pyval \<Rightarrow> int option" where
  "as_int (PyBool b) = Some (if b then 1 else 0)"
| "as_int (PyInt i) = Some i"
| "as_int _ = None"

definition int_binop ::
  "interp \<Rightarrow> operator \<Rightarrow> (int \<Rightarrow> int \<Rightarrow> exn + pyval) \<Rightarrow> pyval \<Rightarrow> pyval \<Rightarrow> exn + pyval" where
  "int_binop I opr f l r =
     (case as_int l of
        Some a \<Rightarrow> (case as_int r of Some b \<Rightarrow> f a b | None \<Rightarrow> float_binop I opr l r)
      | None \<Rightarrow> float_binop I opr l r)"

definition op_add :: "interp \<Rightarrow> pyval \<Rightarrow> pyval \<Rightarrow> exn + pyval" where
  "op_add I = int_binop I Add (\<lambda>a b. Inr (PyInt (a + b)))"

definition op_sub :: "interp \<Rightarrow> pyval \<Rightarrow> pyval \<Rightarrow> exn + pyval" where
  "op_sub I = int_binop I Sub (\<lambda>a b. Inr (PyInt (a - b)))"

definition op_mul :: "interp \<Rightarrow> pyval \<Rightarrow> pyval \<Rightarrow> exn + pyval" where
  "op_mul I = int_binop I Mult (\<lambda>a b. Inr (PyInt (a * b)))"

text \<open>
  Division by zero, as the language defines it. \<^verbatim>\<open>//\<close> and \<^verbatim>\<open>%\<close> are not defined for
  complex numbers and raise \<^verbatim>\<open>TypeError\<close> on them. Otherwise, when the right operand is a
  zero of any numeric type, \<^verbatim>\<open>/\<close>, \<^verbatim>\<open>//\<close> and \<^verbatim>\<open>%\<close> raise \<^verbatim>\<open>ZeroDivisionError\<close>
  whatever the left operand is, with one exception: an integer is converted to a float
  before it is divided by a float or a complex number, and the conversion of an integer that
  has no float raises \<^verbatim>\<open>OverflowError\<close> before the divisor is looked at. The true quotient
  of two numbers is a float or a complex number and is the interpreter's.
\<close>

definition float_overflow :: exn where
  "float_overflow = OtherException ''OverflowError'' ''int too large to convert to float''"

definition zero_division :: "pyval \<Rightarrow> pyval \<Rightarrow> exn + pyval" where
  "zero_division l r =
     (if too_large_for_float l \<and> as_int r = None then Inl float_overflow
      else Inl ZeroDivisionError)"

definition op_truediv :: "interp \<Rightarrow> pyval \<Rightarrow> pyval \<Rightarrow> exn + pyval" where
  "op_truediv I l r =
     (if isinstance_number l \<and> isinstance_number r \<and> is_zero r then zero_division l r
      else float_binop I Div l r)"

text \<open>
  Floor division and modulo of integers round the quotient towards minus infinity, which is
  what \<open>div\<close> and \<open>mod\<close> on \<open>int\<close> do.
\<close>

definition op_floordiv :: "interp \<Rightarrow> pyval \<Rightarrow> pyval \<Rightarrow> exn + pyval" where
  "op_floordiv I l r =
     (if isinstance_number l \<and> isinstance_number r then
        if is_complex l \<or> is_complex r
          then Inl (TypeError (operand_type_error I FloorDiv l r))
        else if is_zero r then zero_division l r
        else int_binop I FloorDiv (\<lambda>a b. Inr (PyInt (a div b))) l r
      else float_binop I FloorDiv l r)"

definition op_mod :: "interp \<Rightarrow> pyval \<Rightarrow> pyval \<Rightarrow> exn + pyval" where
  "op_mod I l r =
     (if isinstance_number l \<and> isinstance_number r then
        if is_complex l \<or> is_complex r
          then Inl (TypeError (operand_type_error I Mod l r))
        else if is_zero r then zero_division l r
        else int_binop I Mod (\<lambda>a b. Inr (PyInt (a mod b))) l r
      else float_binop I Mod l r)"

text \<open>An integer power with a negative exponent is a float, or an error for base zero.\<close>

definition op_pow :: "interp \<Rightarrow> pyval \<Rightarrow> pyval \<Rightarrow> exn + pyval" where
  "op_pow I l r =
     int_binop I Pow_op
       (\<lambda>a b. if 0 \<le> b then Inr (PyInt (a ^ nat b))
               else if a = 0 then Inl ZeroDivisionError
               else float_binop I Pow_op l r) l r"

definition op_xor :: "interp \<Rightarrow> pyval \<Rightarrow> pyval \<Rightarrow> exn + pyval" where
  "op_xor I l r =
     (case (l, r) of
        (PyBool a, PyBool b) \<Rightarrow> Inr (PyBool (a \<noteq> b))
      | _ \<Rightarrow> int_binop I BitXor (\<lambda>a b. Inr (PyInt (a XOR b))) l r)"

definition op_lshift :: "interp \<Rightarrow> pyval \<Rightarrow> pyval \<Rightarrow> exn + pyval" where
  "op_lshift I =
     int_binop I LShift
       (\<lambda>a b. if b < 0 then Inl (ValueError ''negative shift count'')
               else Inr (PyInt (push_bit (nat b) a)))"

definition op_rshift :: "interp \<Rightarrow> pyval \<Rightarrow> pyval \<Rightarrow> exn + pyval" where
  "op_rshift I =
     int_binop I RShift
       (\<lambda>a b. if b < 0 then Inl (ValueError ''negative shift count'')
               else Inr (PyInt (drop_bit (nat b) a)))"

definition int_unaryop ::
  "interp \<Rightarrow> unaryop \<Rightarrow> (int \<Rightarrow> int) \<Rightarrow> pyval \<Rightarrow> exn + pyval" where
  "int_unaryop I opr f v =
     (case as_int v of Some a \<Rightarrow> Inr (PyInt (f a)) | None \<Rightarrow> float_unaryop I opr v)"

definition op_pos :: "interp \<Rightarrow> pyval \<Rightarrow> exn + pyval" where
  "op_pos I = int_unaryop I UAdd (\<lambda>a. a)"

definition op_neg :: "interp \<Rightarrow> pyval \<Rightarrow> exn + pyval" where
  "op_neg I = int_unaryop I USub (\<lambda>a. - a)"

definition op_invert :: "interp \<Rightarrow> pyval \<Rightarrow> exn + pyval" where
  "op_invert I = int_unaryop I Invert (\<lambda>a. NOT a)"

section \<open>The whitelist tables\<close>

text \<open>\<^verbatim>\<open>_BINOPS\<close>, \<^verbatim>\<open>_UNARYOPS\<close>: dictionaries from an operator class to its function.\<close>

definition BINOPS :: "interp \<Rightarrow> operator \<Rightarrow> (pyval \<Rightarrow> pyval \<Rightarrow> exn + pyval) option" where
  "BINOPS I =
     map_of
       [(Add, op_add I), (Sub, op_sub I), (Mult, op_mul I), (Div, op_truediv I),
        (FloorDiv, op_floordiv I), (Mod, op_mod I), (Pow_op, op_pow I), (BitXor, op_xor I),
        (LShift, op_lshift I), (RShift, op_rshift I)]"

definition UNARYOPS :: "interp \<Rightarrow> unaryop \<Rightarrow> (pyval \<Rightarrow> exn + pyval) option" where
  "UNARYOPS I = map_of [(UAdd, op_pos I), (USub, op_neg I), (Invert, op_invert I)]"

text \<open>
  \<^verbatim>\<open>_ALLOWED_FUNCS\<close>: the dictionary comprehension over the 21 names, each bound to the
  attribute of that name of module \<^verbatim>\<open>math\<close>. \<^verbatim>\<open>_ALLOWED_CONSTS\<close>: five constants of \<^verbatim>\<open>math\<close>.
\<close>

definition ALLOWED_FUNC_NAMES :: "string list" where
  "ALLOWED_FUNC_NAMES =
     [''sin'', ''cos'', ''tan'', ''asin'', ''acos'', ''atan'',
      ''sinh'', ''cosh'', ''tanh'',
      ''log'', ''log10'', ''log2'', ''exp'', ''sqrt'', ''ceil'', ''floor'', ''fabs'',
      ''degrees'', ''radians'', ''pow'', ''factorial'']"

definition ALLOWED_FUNCS :: "interp \<Rightarrow> string \<Rightarrow> (pyval list \<Rightarrow> exn + pyval) option" where
  "ALLOWED_FUNCS I = map_of (map (\<lambda>name. (name, math_function I name)) ALLOWED_FUNC_NAMES)"

definition ALLOWED_CONSTS :: "interp \<Rightarrow> string \<Rightarrow> pyval option" where
  "ALLOWED_CONSTS I =
     map_of
       [(''pi'', math_constant I ''pi''), (''e'', math_constant I ''e''),
        (''tau'', math_constant I ''tau''), (''inf'', math_constant I ''inf''),
        (''nan'', math_constant I ''nan'')]"

section \<open>Recursive evaluation of nodes\<close>

text \<open>The class names of nodes, for the messages that print \<^verbatim>\<open>type(node)\<close>.\<close>

fun operator_class :: "operator \<Rightarrow> string" where
  "operator_class Add = ''Add''"
| "operator_class Sub = ''Sub''"
| "operator_class Mult = ''Mult''"
| "operator_class MatMult = ''MatMult''"
| "operator_class Div = ''Div''"
| "operator_class Mod = ''Mod''"
| "operator_class Pow_op = ''Pow''"
| "operator_class LShift = ''LShift''"
| "operator_class RShift = ''RShift''"
| "operator_class BitOr = ''BitOr''"
| "operator_class BitXor = ''BitXor''"
| "operator_class BitAnd = ''BitAnd''"
| "operator_class FloorDiv = ''FloorDiv''"

fun unaryop_class :: "unaryop \<Rightarrow> string" where
  "unaryop_class Invert = ''Invert''"
| "unaryop_class Not_op = ''Not''"
| "unaryop_class UAdd = ''UAdd''"
| "unaryop_class USub = ''USub''"

fun context_class :: "expr_context \<Rightarrow> string" where
  "context_class Load = ''Load''"
| "context_class Store = ''Store''"
| "context_class Del = ''Del''"

fun expr_class :: "expr \<Rightarrow> string" where
  "expr_class (Constant _) = ''Constant''"
| "expr_class (Name _ _) = ''Name''"
| "expr_class (UnaryOp _ _) = ''UnaryOp''"
| "expr_class (BinOp _ _ _) = ''BinOp''"
| "expr_class (Call _ _ _) = ''Call''"
| "expr_class (Attribute _ _ _) = ''Attribute''"
| "expr_class (Tuple _ _) = ''Tuple''"
| "expr_class (OtherExpr c _) = c"

text \<open>
  The list comprehension over \<^verbatim>\<open>node.args\<close>: the arguments are evaluated from left to right
  and the first exception ends the evaluation.
\<close>

fun sequence :: "(exn + 'a) list \<Rightarrow> exn + 'a list" where
  "sequence [] = Inr []"
| "sequence (Inl e # _) = Inl e"
| "sequence (Inr v # rs) = (case sequence rs of Inl e \<Rightarrow> Inl e | Inr vs \<Rightarrow> Inr (v # vs))"

text \<open>
  \<^verbatim>\<open>_eval_node(node, names)\<close>. The caller's variables \<open>names\<close> are the keyword dictionary, a
  list of pairs in the order the caller wrote them, read through \<open>map_of\<close>. A unary operator is
  looked up before its operand is evaluated, a binary operator after both operands are. The
  keywords of a call are not read. The branch for \<^verbatim>\<open>ast.Num\<close> is left out: it comes after
  the branch for \<^verbatim>\<open>ast.Constant\<close>, which takes every literal of these trees. The
  interpreter's recursion limit is not modelled: a tree of any depth is evaluated.
\<close>

fun eval_node :: "interp \<Rightarrow> expr \<Rightarrow> (string \<times> pyval) list \<Rightarrow> exn + pyval" where
  "eval_node I (Constant v) names =
     (if isinstance_number v then Inr v
      else Inl (EvalError (''Unsupported constant: '' @ repr I v)))"
| "eval_node I (Name ident ctx) names =
     (case map_of names ident of
        Some v \<Rightarrow> Inr v
      | None \<Rightarrow>
          (case ALLOWED_CONSTS I ident of
             Some c \<Rightarrow> Inr c
           | None \<Rightarrow> Inl (EvalError (''Unknown identifier: '' @ ident))))"
| "eval_node I (UnaryOp opr operand) names =
     (case UNARYOPS I opr of
        Some f \<Rightarrow> (case eval_node I operand names of Inl e \<Rightarrow> Inl e | Inr v \<Rightarrow> f v)
      | None \<Rightarrow>
          Inl (EvalError (''Unsupported unary operator: '' @ str_type I (unaryop_class opr))))"
| "eval_node I (BinOp left opr right) names =
     (case eval_node I left names of
        Inl e \<Rightarrow> Inl e
      | Inr l \<Rightarrow>
          (case eval_node I right names of
             Inl e \<Rightarrow> Inl e
           | Inr r \<Rightarrow>
               (case BINOPS I opr of
                  Some f \<Rightarrow> f l r
                | None \<Rightarrow>
                    Inl (EvalError
                      (''Unsupported binary operator: '' @ str_type I (operator_class opr))))))"
| "eval_node I (Call func args keywords) names =
     (case func of
        Name fname ctx \<Rightarrow>
          (case ALLOWED_FUNCS I fname of
             None \<Rightarrow> Inl (EvalError (''Function not allowed: '' @ fname))
           | Some f \<Rightarrow>
               (case sequence (map (\<lambda>a. eval_node I a names) args) of
                  Inl e \<Rightarrow> Inl e
                | Inr vs \<Rightarrow> f vs))
      | _ \<Rightarrow> Inl (EvalError ''Only direct function calls are allowed''))"
| "eval_node I node names =
     Inl (EvalError (''Unsupported expression element: '' @ str_type I (expr_class node)))"

section \<open>Walking the tree\<close>

text \<open>
  \<^verbatim>\<open>ast.iter_child_nodes\<close>: the child nodes in the order of the fields of the node's class
  (\<^verbatim>\<open>BinOp\<close>: left, op, right; \<^verbatim>\<open>Call\<close>: func, args, keywords; ...). Fields that are not
  nodes (an identifier, a constant's value) are skipped.
\<close>

fun iter_child_nodes :: "ast \<Rightarrow> ast list" where
  "iter_child_nodes (Expression body) = [ExprNode body]"
| "iter_child_nodes (ExprNode (Constant v)) = []"
| "iter_child_nodes (ExprNode (Name ident ctx)) = [ContextNode ctx]"
| "iter_child_nodes (ExprNode (UnaryOp opr operand)) = [UnaryopNode opr, ExprNode operand]"
| "iter_child_nodes (ExprNode (BinOp left opr right)) =
     [ExprNode left, OperatorNode opr, ExprNode right]"
| "iter_child_nodes (ExprNode (Call func args keywords)) =
     ExprNode func # map ExprNode args @ map KeywordNode keywords"
| "iter_child_nodes (ExprNode (Attribute v attr ctx)) = [ExprNode v, ContextNode ctx]"
| "iter_child_nodes (ExprNode (Tuple elts ctx)) = map ExprNode elts @ [ContextNode ctx]"
| "iter_child_nodes (ExprNode (OtherExpr c children)) = map ExprNode children"
| "iter_child_nodes (KeywordNode (Keyword arg v)) = [ExprNode v]"
| "iter_child_nodes (OperatorNode opr) = []"
| "iter_child_nodes (UnaryopNode opr) = []"
| "iter_child_nodes (ContextNode ctx) = []"

text \<open>The number of nodes of a tree; it bounds the walk.\<close>

fun count_expr :: "expr \<Rightarrow> nat" and count_keyword :: "keyword \<Rightarrow> nat" where
  "count_expr (Constant v) = 1"
| "count_expr (Name ident ctx) = 2"
| "count_expr (UnaryOp opr operand) = 2 + count_expr operand"
| "count_expr (BinOp left opr right) = 2 + count_expr left + count_expr right"
| "count_expr (Call func args keywords) =
     1 + count_expr func + sum_list (map count_expr args) + sum_list (map count_keyword keywords)"
| "count_expr (Attribute v attr ctx) = 2 + count_expr v"
| "count_expr (Tuple elts ctx) = 2 + sum_list (map count_expr elts)"
| "count_expr (OtherExpr c children) = 1 + sum_list (map count_expr children)"
| "count_keyword (Keyword arg v) = 1 + count_expr v"

fun count_nodes :: "ast \<Rightarrow> nat" where
  "count_nodes (Expression body) = 1 + count_expr body"
| "count_nodes (ExprNode e) = count_expr e"
| "count_nodes (KeywordNode k) = count_keyword k"
| "count_nodes (OperatorNode opr) = 1"
| "count_nodes (UnaryopNode opr) = 1"
| "count_nodes (ContextNode ctx) = 1"

lemma count_nodes_children:
  "count_nodes n = Suc (sum_list (map count_nodes (iter_child_nodes n)))"
  by (induction n rule: iter_child_nodes.induct) (simp_all add: comp_def)

text \<open>
  \<^verbatim>\<open>ast.walk\<close>: breadth first, with a queue. The head of the queue is taken, its children are
  put at the end, and the head is yielded.
\<close>

function walk_queue :: "ast list \<Rightarrow> ast list" where
  "walk_queue [] = []"
| "walk_queue (n # todo) = n # walk_queue (todo @ iter_child_nodes n)"
  by pat_completeness auto
termination
  by (relation "measure (\<lambda>todo. sum_list (map count_nodes todo))")
     (simp_all add: count_nodes_children)

definition walk :: "ast \<Rightarrow> ast list" where
  "walk n = walk_queue [n]"

text \<open>
  The node classes of the \<^verbatim>\<open>isinstance\<close> test in \<^verbatim>\<open>evaluate\<close>. (\<^verbatim>\<open>ast.Num\<close>, the literal
  class of the parsers before Python 3.8, has no instance in these trees.)
\<close>

fun allowed :: "ast \<Rightarrow> bool" where
  "allowed (Expression _) = True"
| "allowed (ExprNode (BinOp _ _ _)) = True"
| "allowed (ExprNode (UnaryOp _ _)) = True"
| "allowed (ExprNode (Call _ _ _)) = True"
| "allowed (ContextNode Load) = True"
| "allowed (ExprNode (Name _ _)) = True"
| "allowed (ExprNode (Constant _)) = True"
| "allowed (OperatorNode opr) =
     (opr \<in> {Pow_op, Add, Sub, Mult, Div, Mod, FloorDiv, LShift, RShift, BitXor})"
| "allowed (UnaryopNode opr) = (opr \<in> {UAdd, USub, Invert})"
| "allowed (ExprNode (Tuple _ _)) = True"
| "allowed _ = False"

fun node_class :: "ast \<Rightarrow> string" where
  "node_class (Expression _) = ''Expression''"
| "node_class (ExprNode e) = expr_class e"
| "node_class (OperatorNode opr) = operator_class opr"
| "node_class (UnaryopNode opr) = unaryop_class opr"
| "node_class (ContextNode ctx) = context_class ctx"
| "node_class (KeywordNode _) = ''keyword''"

section \<open>The entry point\<close>

text \<open>
  \<^verbatim>\<open>evaluate(expr, /, **variables)\<close>. The argument \<open>expr\<close> is any Python value; only a
  \<^verbatim>\<open>SyntaxError\<close> of the parser is converted, any other exception of the parser passes
  through. The loop over \<^verbatim>\<open>ast.walk(parsed)\<close> raises at the first node, in walk order, whose
  class is not allowed.
\<close>

definition evaluate :: "interp \<Rightarrow> pyval \<Rightarrow> (string \<times> pyval) list \<Rightarrow> exn + pyval" where
  "evaluate I expr variables =
     (case expr of
        PyStr s \<Rightarrow>
          (case ast_parse I s of
             Inl (SyntaxError e) \<Rightarrow> Inl (EvalError (''Syntax error: '' @ e))
           | Inl x \<Rightarrow> Inl x
           | Inr body \<Rightarrow>
               (case find (\<lambda>n. \<not> allowed n) (walk (Expression body)) of
                  Some n \<Rightarrow>
                    Inl (EvalError
                      (''Disallowed expression element: '' @ str_type I (node_class n)))
                | None \<Rightarrow> eval_node I body variables))
      | _ \<Rightarrow> Inl (TypeError ''expr must be a string''))"

section \<open>The dictionaries as mutable state\<close>

text \<open>
  The objects a call of \<^verbatim>\<open>evaluate\<close> could change: the four dictionaries the module keeps
  for the whole process, \<^verbatim>\<open>_BINOPS\<close>, \<^verbatim>\<open>_UNARYOPS\<close>, \<^verbatim>\<open>_ALLOWED_FUNCS\<close> and
  \<^verbatim>\<open>_ALLOWED_CONSTS\<close>, and the dictionary \<^verbatim>\<open>variables\<close> of the call. Here the evaluator is
  written once more with these dictionaries as a state that every step takes and returns:
  each lookup reads the dictionary as it is at that moment, so a write anywhere would be
  seen by every later lookup and by the next call. The functions stored in the dictionaries
  are those of modules \<^verbatim>\<open>operator\<close> and \<^verbatim>\<open>math\<close>: they take their arguments and return
  a value or raise, and have no access to the dictionaries.
\<close>

record globals =
  BINOPS_dict :: "(operator \<times> (pyval \<Rightarrow> pyval \<Rightarrow> exn + pyval)) list"
  UNARYOPS_dict :: "(unaryop \<times> (pyval \<Rightarrow> exn + pyval)) list"
  ALLOWED_FUNCS_dict :: "(string \<times> (pyval list \<Rightarrow> exn + pyval)) list"
  ALLOWED_CONSTS_dict :: "(string \<times> pyval) list"

record py_state =
  module_globals :: globals
  names_dict :: "(string \<times> pyval) list"

text \<open>The dictionaries as the module's top-level assignments build them, at import.\<close>

definition module_init :: "interp \<Rightarrow> globals" where
  "module_init I =
     \<lparr> BINOPS_dict =
         [(Add, op_add I), (Sub, op_sub I), (Mult, op_mul I), (Div, op_truediv I),
          (FloorDiv, op_floordiv I), (Mod, op_mod I), (Pow_op, op_pow I), (BitXor, op_xor I),
          (LShift, op_lshift I), (RShift, op_rshift I)],
       UNARYOPS_dict = [(UAdd, op_pos I), (USub, op_neg I), (Invert, op_invert I)],
       ALLOWED_FUNCS_dict = map (\<lambda>name. (name, math_function I name)) ALLOWED_FUNC_NAMES,
       ALLOWED_CONSTS_dict =
         [(''pi'', math_constant I ''pi''), (''e'', math_constant I ''e''),
          (''tau'', math_constant I ''tau''), (''inf'', math_constant I ''inf''),
          (''nan'', math_constant I ''nan'')] \<rparr>"

text \<open>The list comprehension over the arguments, the state passed from one to the next.\<close>

fun run_list :: "('s \<Rightarrow> (exn + 'a) \<times> 's) list \<Rightarrow> 's \<Rightarrow> (exn + 'a list) \<times> 's" where
  "run_list [] s = (Inr [], s)"
| "run_list (m # ms) s =
     (case m s of
        (Inl e, s1) \<Rightarrow> (Inl e, s1)
      | (Inr v, s1) \<Rightarrow>
          (case run_list ms s1 of
             (Inl e, s2) \<Rightarrow> (Inl e, s2)
           | (Inr vs, s2) \<Rightarrow> (Inr (v # vs), s2)))"

text \<open>
  \<^verbatim>\<open>_eval_node\<close> on the state. The test \<^verbatim>\<open>key in d\<close> and the subscription \<^verbatim>\<open>d[key]\<close> are
  two reads; where the operand or the arguments are evaluated between them, the second read
  is of the state they leave, and a key that is gone raises \<^verbatim>\<open>KeyError\<close>.
\<close>

fun eval_node_st :: "interp \<Rightarrow> expr \<Rightarrow> py_state \<Rightarrow> (exn + pyval) \<times> py_state" where
  "eval_node_st I (Constant v) =
     (\<lambda>s. (if isinstance_number v then Inr v
            else Inl (EvalError (''Unsupported constant: '' @ repr I v)), s))"
| "eval_node_st I (Name ident ctx) =
     (\<lambda>s. (case map_of (names_dict s) ident of
              Some v \<Rightarrow> Inr v
            | None \<Rightarrow>
                (case map_of (ALLOWED_CONSTS_dict (module_globals s)) ident of
                   Some c \<Rightarrow> Inr c
                 | None \<Rightarrow> Inl (EvalError (''Unknown identifier: '' @ ident))), s))"
| "eval_node_st I (UnaryOp opr operand) =
     (\<lambda>s. case map_of (UNARYOPS_dict (module_globals s)) opr of
            None \<Rightarrow>
              (Inl (EvalError
                 (''Unsupported unary operator: '' @ str_type I (unaryop_class opr))), s)
          | Some f0 \<Rightarrow>
              (case eval_node_st I operand s of
                 (Inl e, s1) \<Rightarrow> (Inl e, s1)
               | (Inr v, s1) \<Rightarrow>
                   (case map_of (UNARYOPS_dict (module_globals s1)) opr of
                      Some f \<Rightarrow> (f v, s1)
                    | None \<Rightarrow> (Inl (OtherException ''KeyError'' (unaryop_class opr)), s1))))"
| "eval_node_st I (BinOp left opr right) =
     (\<lambda>s. case eval_node_st I left s of
            (Inl e, s1) \<Rightarrow> (Inl e, s1)
          | (Inr l, s1) \<Rightarrow>
              (case eval_node_st I right s1 of
                 (Inl e, s2) \<Rightarrow> (Inl e, s2)
               | (Inr r, s2) \<Rightarrow>
                   (case map_of (BINOPS_dict (module_globals s2)) opr of
                      Some f \<Rightarrow> (f l r, s2)
                    | None \<Rightarrow>
                        (Inl (EvalError
                           (''Unsupported binary operator: ''
                              @ str_type I (operator_class opr))), s2))))"
| "eval_node_st I (Call func args keywords) =
     (\<lambda>s. case func of
            Name fname ctx \<Rightarrow>
              (case map_of (ALLOWED_FUNCS_dict (module_globals s)) fname of
                 None \<Rightarrow> (Inl (EvalError (''Function not allowed: '' @ fname)), s)
               | Some f0 \<Rightarrow>
                   (case run_list (map (\<lambda>a. eval_node_st I a) args) s of
                      (Inl e, s1) \<Rightarrow> (Inl e, s1)
                    | (Inr vs, s1) \<Rightarrow>
                        (case map_of (ALLOWED_FUNCS_dict (module_globals s1)) fname of
                           Some f \<Rightarrow> (f vs, s1)
                         | None \<Rightarrow> (Inl (OtherException ''KeyError'' fname), s1))))
          | _ \<Rightarrow> (Inl (EvalError ''Only direct function calls are allowed''), s))"
| "eval_node_st I node =
     (\<lambda>s. (Inl (EvalError
               (''Unsupported expression element: '' @ str_type I (expr_class node))), s))"

text \<open>
  \<^verbatim>\<open>evaluate\<close> on the state: it takes the module's dictionaries as the call finds them and
  returns the result, the dictionaries and the dictionary \<^verbatim>\<open>variables\<close> as the call leaves
  them.
\<close>

definition evaluate_st ::
  "interp \<Rightarrow> pyval \<Rightarrow> (string \<times> pyval) list \<Rightarrow> globals
     \<Rightarrow> (exn + pyval) \<times> globals \<times> (string \<times> pyval) list" where
  "evaluate_st I expr variables g =
     (case expr of
        PyStr s \<Rightarrow>
          (case ast_parse I s of
             Inl (SyntaxError e) \<Rightarrow> (Inl (EvalError (''Syntax error: '' @ e)), g, variables)
           | Inl x \<Rightarrow> (Inl x, g, variables)
           | Inr body \<Rightarrow>
               (case find (\<lambda>n. \<not> allowed n) (walk (Expression body)) of
                  Some n \<Rightarrow>
                    (Inl (EvalError
                       (''Disallowed expression element: '' @ str_type I (node_class n))),
                     g, variables)
                | None \<Rightarrow>
                    (case eval_node_st I body \<lparr>module_globals = g, names_dict = variables\<rparr> of
                       (r, s1) \<Rightarrow> (r, module_globals s1, names_dict s1))))
      | _ \<Rightarrow> (Inl (TypeError ''expr must be a string''), g, variables))"

section \<open>The tree shapes and error kinds of the specification\<close>

text \<open>
  The specification's expression tree (its section 3), read on the nodes of \<^verbatim>\<open>ast\<close>: a
  numeric literal, an identifier, a unary or binary operation with an operator of the tables,
  or a call of a whitelisted name with positional arguments only. Everything else is a
  construct outside the whitelist.
\<close>

fun whitelisted :: "expr \<Rightarrow> bool" where
  "whitelisted (Constant v) = isinstance_number v"
| "whitelisted (Name ident ctx) = (ctx = Load)"
| "whitelisted (UnaryOp opr operand) = (opr \<in> {UAdd, USub, Invert} \<and> whitelisted operand)"
| "whitelisted (BinOp left opr right) =
     (opr \<in> {Add, Sub, Mult, Div, FloorDiv, Mod, Pow_op, BitXor, LShift, RShift}
      \<and> whitelisted left \<and> whitelisted right)"
| "whitelisted (Call func args keywords) =
     ((case func of
         Name fname ctx \<Rightarrow> fname \<in> set ALLOWED_FUNC_NAMES \<and> ctx = Load
       | _ \<Rightarrow> False)
      \<and> list_all whitelisted args \<and> keywords = [])"
| "whitelisted _ = False"

text \<open>
  The specification's parse and validation errors (its section 7: malformed syntax, a
  disallowed node kind, an unknown function, a call target that is not a name), recognised
  among the program's exceptions by the message the program gives them.
\<close>

definition starts_with :: "string \<Rightarrow> string \<Rightarrow> bool" where
  "starts_with p m = (take (length p) m = p)"

definition spec_parse_or_validation_stage :: "exn \<Rightarrow> bool" where
  "spec_parse_or_validation_stage x =
     (case x of
        EvalError m \<Rightarrow>
          starts_with ''Syntax error: '' m
          \<or> starts_with ''Disallowed expression element: '' m
          \<or> starts_with ''Function not allowed: '' m
          \<or> m = ''Only direct function calls are allowed''
      | _ \<Rightarrow> False)"

section \<open>CPython 3.11 at the inputs of the examples\<close>

text \<open>
  An interpreter to run the definitions on: what CPython 3.11 answers at the inputs the
  examples below use. The table gives \<^verbatim>\<open>ast.parse(s, mode="eval")\<close> for each example string,
  \<open>py311_math\<close> gives \<^verbatim>\<open>math.sqrt\<close> and \<^verbatim>\<open>math.factorial\<close> on integers,
  \<open>py311_float_binop\<close> gives \<^verbatim>\<open>(-8) ** 0.5\<close>, a complex number, and
  \<open>py311_operand_type_error\<close> the text for the modulo of a complex number and an integer.
  At every other input this interpreter raises \<^verbatim>\<open>NotImplementedError\<close>; no example reaches
  one.
\<close>

definition py311_parse_table :: "(string \<times> (exn + expr)) list" where
  "py311_parse_table =
     [(''2 + 3'', Inr (BinOp (Constant (PyInt 2)) Add (Constant (PyInt 3)))),
      (''2 ** 3 ** 2'',
         Inr (BinOp (Constant (PyInt 2)) Pow_op
                (BinOp (Constant (PyInt 3)) Pow_op (Constant (PyInt 2))))),
      (''-7 // 2'', Inr (BinOp (UnaryOp USub (Constant (PyInt 7))) FloorDiv (Constant (PyInt 2)))),
      (''-7 % 2'', Inr (BinOp (UnaryOp USub (Constant (PyInt 7))) Mod (Constant (PyInt 2)))),
      (''1/0'', Inr (BinOp (Constant (PyInt 1)) Div (Constant (PyInt 0)))),
      (''1 % 0'', Inr (BinOp (Constant (PyInt 1)) Mod (Constant (PyInt 0)))),
      (''1.5 / 0.0'',
         Inr (BinOp (Constant (PyFloat 0x3FF8000000000000)) Div (Constant (PyFloat 0)))),
      (''2j % 0'',
         Inr (BinOp (Constant (PyComplex 0 0x4000000000000000)) Mod (Constant (PyInt 0)))),
      (''2**1024 / 0.0'',
         Inr (BinOp (BinOp (Constant (PyInt 2)) Pow_op (Constant (PyInt 1024))) Div
                (Constant (PyFloat 0)))),
      (''(-8) ** 0.5'',
         Inr (BinOp (UnaryOp USub (Constant (PyInt 8))) Pow_op
                (Constant (PyFloat 0x3FE0000000000000)))),
      (''sqrt(-1)'', Inr (Call (Name ''sqrt'' Load) [UnaryOp USub (Constant (PyInt 1))] [])),
      (''factorial(3)'', Inr (Call (Name ''factorial'' Load) [Constant (PyInt 3)] [])),
      (''os.system('ls')'',
         Inr (Call (Attribute (Name ''os'' Load) ''system'' Load) [Constant (PyStr ''ls'')] [])),
      (''__import__('os')'', Inr (Call (Name ''__import__'' Load) [Constant (PyStr ''os'')] [])),
      (''open('f')'', Inr (Call (Name ''open'' Load) [Constant (PyStr ''f'')] [])),
      (''y + open('f')'',
         Inr (BinOp (Name ''y'' Load) Add
                (Call (Name ''open'' Load) [Constant (PyStr ''f'')] []))),
      (''x + y'', Inr (BinOp (Name ''x'' Load) Add (Name ''y'' Load))),
      (''y'', Inr (Name ''y'' Load)),
      (''pi'', Inr (Name ''pi'' Load)),
      (''2j'', Inr (Constant (PyComplex 0 0x4000000000000000))),
      (CHR 0x27 # ''ls'' @ [CHR 0x27], Inr (Constant (PyStr ''ls''))),
      ('''', Inl (SyntaxError ''invalid syntax (<unknown>, line 0)'')),
      (''('', Inl (SyntaxError '''(' was never closed (<unknown>, line 1)''))]"

definition py311_repr :: "pyval \<Rightarrow> string" where
  "py311_repr v =
     (case v of
        PyStr s \<Rightarrow> CHR 0x27 # s @ [CHR 0x27]
      | PyNone \<Rightarrow> ''None''
      | PyEllipsis \<Rightarrow> ''Ellipsis''
      | PyBool b \<Rightarrow> (if b then ''True'' else ''False'')
      | _ \<Rightarrow> ''<repr>'')"

definition py311_math :: "string \<Rightarrow> pyval list \<Rightarrow> exn + pyval" where
  "py311_math name args =
     (case args of
        [PyInt n] \<Rightarrow>
          (if name = ''sqrt'' \<and> n < 0 then Inl (ValueError ''math domain error'')
           else if name = ''factorial'' \<and> n < 0
             then Inl (ValueError ''factorial() not defined for negative values'')
           else if name = ''factorial'' then Inr (PyInt (int (fact (nat n))))
           else Inl (OtherException ''NotImplementedError'' name))
      | _ \<Rightarrow> Inl (OtherException ''NotImplementedError'' name))"

definition py311_constant :: "string \<Rightarrow> pyval" where
  "py311_constant name =
     (if name = ''pi'' then PyFloat 0x400921FB54442D18
      else if name = ''e'' then PyFloat 0x4005BF0A8B145769
      else if name = ''tau'' then PyFloat 0x401921FB54442D18
      else if name = ''inf'' then PyFloat 0x7FF0000000000000
      else PyFloat 0x7FF8000000000000)"

definition py311_float_binop :: "operator \<Rightarrow> pyval \<Rightarrow> pyval \<Rightarrow> exn + pyval" where
  "py311_float_binop opr l r =
     (if opr = Pow_op \<and> l = PyInt (- 8) \<and> r = PyFloat 0x3FE0000000000000
      then Inr (PyComplex 0x3CA8F5A0BE038ED7 0x4006A09E667F3BCD)
      else Inl (OtherException ''NotImplementedError'' ''float''))"

definition py311_operand_type_error :: "operator \<Rightarrow> pyval \<Rightarrow> pyval \<Rightarrow> string" where
  "py311_operand_type_error opr l r =
     (if opr = Mod \<and> is_complex l \<and> (\<exists>i. r = PyInt i)
      then ''unsupported operand type(s) for %: 'complex' and 'int'' @ [CHR 0x27]
      else ''unsupported operand type(s)'')"

definition py311 :: interp where
  "py311 =
     \<lparr> ast_parse =
         (\<lambda>s. case map_of py311_parse_table s of
                Some r \<Rightarrow> r
              | None \<Rightarrow> Inl (OtherException ''NotImplementedError'' s)),
       repr = py311_repr,
       str_type = (\<lambda>c. ''<class 'ast.'' @ c @ CHR 0x27 # ''>''),
       math_function = py311_math,
       math_constant = py311_constant,
       float_binop = py311_float_binop,
       float_unaryop = (\<lambda>opr v. Inl (OtherException ''NotImplementedError'' ''float'')),
       operand_type_error = py311_operand_type_error \<rparr>"

text \<open>
  The same \<^verbatim>\<open>math\<close> module with one more attribute, \<^verbatim>\<open>system\<close>, which is not in the
  whitelist: a function the evaluator must never reach.
\<close>

definition math_with_system :: "string \<Rightarrow> pyval list \<Rightarrow> exn + pyval" where
  "math_with_system name =
     (if name = ''system'' then (\<lambda>args. Inr PyNone) else py311_math name)"

section \<open>Evaluating the definitions\<close>

text \<open>
  The walk yields the nodes of \<^verbatim>\<open>os.system('ls') + f(x=1)\<close> in the order \<^verbatim>\<open>ast.walk\<close> does.
\<close>

lemma walk_order_example:
  "map node_class
     (walk (Expression
        (BinOp (Call (Attribute (Name ''os'' Load) ''system'' Load) [Constant (PyStr ''ls'')] [])
           Add
           (Call (Name ''f'' Load) [] [Keyword (Some ''x'') (Constant (PyInt 1))]))))
   = [''Expression'', ''BinOp'', ''Call'', ''Add'', ''Call'', ''Attribute'', ''Constant'',
      ''Name'', ''keyword'', ''Name'', ''Load'', ''Load'', ''Constant'', ''Load'']"
  by (simp add: walk_def)

lemma py311_fields [simp]:
  "ast_parse py311 s =
     (case map_of py311_parse_table s of
        Some r \<Rightarrow> r | None \<Rightarrow> Inl (OtherException ''NotImplementedError'' s))"
  "repr py311 = py311_repr"
  "str_type py311 c = ''<class 'ast.'' @ c @ CHR 0x27 # ''>''"
  "math_function py311 = py311_math"
  "math_constant py311 = py311_constant"
  "float_binop py311 = py311_float_binop"
  "float_unaryop py311 uopr v = Inl (OtherException ''NotImplementedError'' ''float'')"
  "operand_type_error py311 = py311_operand_type_error"
  by (simp_all add: py311_def)

section \<open>Properties of the walk, the tables and the evaluator\<close>

text \<open>The function table holds exactly the 21 names; the operator tables their operators.\<close>

lemma map_of_map_key:
  "map_of (map (\<lambda>n. (n, f n)) xs) k = (if k \<in> set xs then Some (f k) else None)"
  by (induction xs) auto

lemma ALLOWED_FUNCS_eq:
  "ALLOWED_FUNCS I fname =
     (if fname \<in> set ALLOWED_FUNC_NAMES then Some (math_function I fname) else None)"
  by (simp add: ALLOWED_FUNCS_def map_of_map_key)

lemma BINOPS_Some:
  "BINOPS I opr = Some f \<Longrightarrow>
   opr \<in> {Add, Sub, Mult, Div, FloorDiv, Mod, Pow_op, BitXor, LShift, RShift}"
  by (cases opr) (simp_all add: BINOPS_def)

lemma UNARYOPS_Some: "UNARYOPS I opr = Some f \<Longrightarrow> opr \<in> {UAdd, USub, Invert}"
  by (cases opr) (simp_all add: UNARYOPS_def)

text \<open>The argument list: the first exception wins, and success means every argument succeeded.\<close>

lemma sequence_append_Inl:
  "sequence (rs @ Inl e # rs') = (case sequence rs of Inl e' \<Rightarrow> Inl e' | Inr _ \<Rightarrow> Inl e)"
  by (induction rs rule: sequence.induct) (simp_all split: sum.splits)

lemma sequence_Inr:
  "sequence rs = Inr vs \<Longrightarrow> \<forall>r\<in>set rs. \<exists>v. r = Inr v"
proof (induction rs arbitrary: vs rule: sequence.induct)
  case 1
  then show ?case by simp
next
  case (2 e uu)
  then show ?case by simp
next
  case (3 v rs)
  then show ?case by (auto split: sum.splits)
qed

text \<open>
  The walk reaches every node of the tree: it yields the node and what the walks of its
  children yield. The induction is on the number of nodes in the queue.
\<close>

lemma walk_queue_append:
  "set (walk_queue (xs @ ys)) = set (walk_queue xs) \<union> set (walk_queue ys)"
proof (induction "xs @ ys" arbitrary: xs ys
    rule: measure_induct_rule [where f = "\<lambda>q. sum_list (map count_nodes q)"])
  case less
  show ?case
  proof (cases xs)
    case Nil
    then show ?thesis by simp
  next
    case (Cons n todo)
    have m: "sum_list (map count_nodes (iter_child_nodes n)) < count_nodes n"
      by (simp add: count_nodes_children)
    have a: "set (walk_queue (todo @ (ys @ iter_child_nodes n)))
        = set (walk_queue todo) \<union> set (walk_queue (ys @ iter_child_nodes n))"
      using less [of todo "ys @ iter_child_nodes n"] m Cons by simp
    have b: "set (walk_queue (ys @ iter_child_nodes n))
        = set (walk_queue ys) \<union> set (walk_queue (iter_child_nodes n))"
      using less [of ys "iter_child_nodes n"] m Cons by simp
    have c: "set (walk_queue (todo @ iter_child_nodes n))
        = set (walk_queue todo) \<union> set (walk_queue (iter_child_nodes n))"
      using less [of todo "iter_child_nodes n"] m Cons by simp
    show ?thesis using a b c Cons by auto
  qed
qed

lemma walk_queue_Union: "set (walk_queue q) = (\<Union>n\<in>set q. set (walk n))"
proof (induction q)
  case Nil
  then show ?case by simp
next
  case (Cons n q)
  have "set (walk_queue (n # q)) = set (walk_queue [n]) \<union> set (walk_queue q)"
    using walk_queue_append [of "[n]" q] by simp
  then show ?case using Cons by (simp add: walk_def)
qed

lemma set_walk: "set (walk n) = insert n (\<Union>c\<in>set (iter_child_nodes n). set (walk c))"
proof -
  have "walk n = n # walk_queue (iter_child_nodes n)" by (simp add: walk_def)
  then show ?thesis by (simp add: walk_queue_Union)
qed

text \<open>
  A tree that passes the walk and evaluates to a value has only shapes of the whitelist.
\<close>

lemma allowed_context: "allowed (ContextNode ctx) \<Longrightarrow> ctx = Load"
  by (cases ctx) simp_all

lemma eval_success_whitelisted:
  "eval_node I e names = Inr r \<Longrightarrow> \<forall>x\<in>set (walk (ExprNode e)). allowed x \<Longrightarrow> whitelisted e"
proof (induction I e names arbitrary: r rule: eval_node.induct)
  case (1 I v names)
  then show ?case by (simp split: if_splits)
next
  case (2 I ident ctx names)
  have "ContextNode ctx \<in> set (walk (ExprNode (Name ident ctx)))"
    by (simp add: set_walk [of "ExprNode (Name ident ctx)"] set_walk [of "ContextNode ctx"])
  then show ?case using 2 allowed_context by auto
next
  case (3 I opr operand names)
  from 3(2) obtain f v where f: "UNARYOPS I opr = Some f"
    and v: "eval_node I operand names = Inr v"
    by (auto split: option.splits sum.splits)
  have "set (walk (ExprNode operand)) \<subseteq> set (walk (ExprNode (UnaryOp opr operand)))"
    by (auto simp add: set_walk [of "ExprNode (UnaryOp opr operand)"])
  then have "whitelisted operand" using 3(1) [OF f v] 3(3) by blast
  then show ?case using UNARYOPS_Some [OF f] by simp
next
  case (4 I left opr right names)
  from 4(3) obtain l r' f where l: "eval_node I left names = Inr l"
    and r: "eval_node I right names = Inr r'" and f: "BINOPS I opr = Some f"
    by (auto split: option.splits sum.splits)
  have sub: "set (walk (ExprNode left)) \<subseteq> set (walk (ExprNode (BinOp left opr right)))"
    "set (walk (ExprNode right)) \<subseteq> set (walk (ExprNode (BinOp left opr right)))"
    by (auto simp add: set_walk [of "ExprNode (BinOp left opr right)"])
  have "whitelisted left" using 4(1) [OF l] sub 4(4) by blast
  moreover have "whitelisted right" using 4(2) [OF l r] sub 4(4) by blast
  ultimately show ?case using BINOPS_Some [OF f] by simp
next
  case (5 I func args kws names)
  from 5(2) obtain fname ctx f vs where func: "func = Name fname ctx"
    and f: "ALLOWED_FUNCS I fname = Some f"
    and vs: "sequence (map (\<lambda>a. eval_node I a names) args) = Inr vs"
    by (auto split: expr.splits option.splits sum.splits)
  let ?n = "ExprNode (Call func args kws)"
  have kids: "set (iter_child_nodes ?n)
      = insert (ExprNode func) (ExprNode ` set args \<union> KeywordNode ` set kws)"
    by auto
  have w: "set (walk ?n) = insert ?n (\<Union>c\<in>set (iter_child_nodes ?n). set (walk c))"
    by (rule set_walk)
  have all: "\<forall>c\<in>set (iter_child_nodes ?n). \<forall>x\<in>set (walk c). allowed x"
    using 5(3) w by blast
  have self: "\<And>c. c \<in> set (walk c)" by (subst set_walk) simp
  have "kws = []"
  proof (cases kws)
    case Nil
    then show ?thesis .
  next
    case (Cons k ks)
    then have "KeywordNode k \<in> set (iter_child_nodes ?n)" using kids by simp
    then have "allowed (KeywordNode k)" using all self by blast
    then show ?thesis by simp
  qed
  moreover have "ctx = Load"
  proof -
    have "ContextNode ctx \<in> set (walk (ExprNode func))"
      by (simp add: func set_walk [of "ExprNode (Name fname ctx)"] self)
    moreover have "ExprNode func \<in> set (iter_child_nodes ?n)" using kids by simp
    ultimately have "allowed (ContextNode ctx)" using all by blast
    then show ?thesis by (rule allowed_context)
  qed
  moreover have "fname \<in> set ALLOWED_FUNC_NAMES"
    using f by (simp add: ALLOWED_FUNCS_eq split: if_splits)
  moreover have "list_all whitelisted args"
  proof -
    have "whitelisted a" if a: "a \<in> set args" for a
    proof -
      obtain v where v: "eval_node I a names = Inr v"
        using sequence_Inr [OF vs] a by auto
      have "ExprNode a \<in> set (iter_child_nodes ?n)" using kids a by simp
      then have "\<forall>x\<in>set (walk (ExprNode a)). allowed x" using all by blast
      then show ?thesis using 5(1) [OF func f a v] by simp
    qed
    then show ?thesis by (simp add: list_all_iff)
  qed
  ultimately show ?case using func by simp
qed simp_all

lemma evaluate_success:
  assumes "evaluate I (PyStr s) variables = Inr r"
  shows "\<exists>body. ast_parse I s = Inr body \<and> whitelisted body
           \<and> eval_node I body variables = Inr r"
proof -
  from assms obtain body where p: "ast_parse I s = Inr body"
    and f: "find (\<lambda>n. \<not> allowed n) (walk (Expression body)) = None"
    and e: "eval_node I body variables = Inr r"
    by (auto simp add: evaluate_def split: sum.splits exn.splits option.splits)
  have "\<forall>x\<in>set (walk (Expression body)). allowed x"
    using f by (simp add: find_None_iff)
  moreover have "set (walk (ExprNode body)) \<subseteq> set (walk (Expression body))"
    by (auto simp add: set_walk [of "Expression body"])
  ultimately have "\<forall>x\<in>set (walk (ExprNode body)). allowed x" by blast
  then have "whitelisted body" using eval_success_whitelisted [OF e] by simp
  then show ?thesis using p e by simp
qed

text \<open>
  The operators, the operator tables and the constants do not read module \<^verbatim>\<open>math\<close>'s
  functions, and the evaluator reads them under whitelisted names only.
\<close>

lemma int_binop_math_function [simp]:
  "int_binop (I\<lparr>math_function := g\<rparr>) opr f l r = int_binop I opr f l r"
  by (simp add: int_binop_def split: option.splits)

lemma int_unaryop_math_function [simp]:
  "int_unaryop (I\<lparr>math_function := g\<rparr>) uopr f v = int_unaryop I uopr f v"
  by (simp add: int_unaryop_def split: option.splits)

lemma operators_math_function [simp]:
  "op_add (I\<lparr>math_function := g\<rparr>) = op_add I"
  "op_sub (I\<lparr>math_function := g\<rparr>) = op_sub I"
  "op_mul (I\<lparr>math_function := g\<rparr>) = op_mul I"
  "op_truediv (I\<lparr>math_function := g\<rparr>) = op_truediv I"
  "op_floordiv (I\<lparr>math_function := g\<rparr>) = op_floordiv I"
  "op_mod (I\<lparr>math_function := g\<rparr>) = op_mod I"
  "op_pow (I\<lparr>math_function := g\<rparr>) = op_pow I"
  "op_lshift (I\<lparr>math_function := g\<rparr>) = op_lshift I"
  "op_rshift (I\<lparr>math_function := g\<rparr>) = op_rshift I"
  "op_pos (I\<lparr>math_function := g\<rparr>) = op_pos I"
  "op_neg (I\<lparr>math_function := g\<rparr>) = op_neg I"
  "op_invert (I\<lparr>math_function := g\<rparr>) = op_invert I"
  by (simp_all add: fun_eq_iff op_add_def op_sub_def op_mul_def op_truediv_def
      op_floordiv_def op_mod_def op_pow_def op_lshift_def op_rshift_def
      op_pos_def op_neg_def op_invert_def cong: if_cong)

lemma op_xor_math_function [simp]: "op_xor (I\<lparr>math_function := g\<rparr>) = op_xor I"
  by (simp add: fun_eq_iff op_xor_def cong: pyval.case_cong)

lemma tables_math_function [simp]:
  "BINOPS (I\<lparr>math_function := g\<rparr>) = BINOPS I"
  "UNARYOPS (I\<lparr>math_function := g\<rparr>) = UNARYOPS I"
  "ALLOWED_CONSTS (I\<lparr>math_function := g\<rparr>) = ALLOWED_CONSTS I"
  by (simp_all add: BINOPS_def UNARYOPS_def ALLOWED_CONSTS_def)

lemma eval_node_math_function:
  assumes g: "\<forall>n\<in>set ALLOWED_FUNC_NAMES. g n = math_function I n"
  shows "eval_node (I\<lparr>math_function := g\<rparr>) e names = eval_node I e names"
  using g
proof (induction I e names rule: eval_node.induct)
  case (5 I func args kws names)
  show ?case
  proof (cases func)
    case (Name fname ctx)
    show ?thesis
    proof (cases "fname \<in> set ALLOWED_FUNC_NAMES")
      case True
      then have f: "ALLOWED_FUNCS I fname = Some (math_function I fname)"
        by (simp add: ALLOWED_FUNCS_eq)
      have m: "map (\<lambda>a. eval_node (I\<lparr>math_function := g\<rparr>) a names) args
          = map (\<lambda>a. eval_node I a names) args"
        using 5(1) [OF Name f] 5(2) by simp
      have "ALLOWED_FUNCS (I\<lparr>math_function := g\<rparr>) fname = Some (math_function I fname)"
        using True 5(2) by (simp add: ALLOWED_FUNCS_eq)
      then show ?thesis by (simp add: Name f m)
    next
      case False
      then show ?thesis using Name by (simp add: ALLOWED_FUNCS_eq)
    qed
  qed simp_all
qed (simp_all cong: option.case_cong sum.case_cong)

text \<open>
  No step of the evaluator writes to a dictionary, and from the module's own dictionaries
  the evaluator on the state computes what \<open>eval_node\<close> computes.
\<close>

lemma run_list_frame:
  "(\<And>m s. m \<in> set ms \<Longrightarrow> snd (m s) = s) \<Longrightarrow> snd (run_list ms s) = s"
proof (induction ms arbitrary: s)
  case Nil
  then show ?case by simp
next
  case (Cons m ms)
  have a: "snd (m s) = s" using Cons.prems by simp
  have b: "snd (run_list ms s) = s" using Cons by simp
  obtain r where p: "m s = (r, s)" using a by (cases "m s") simp
  obtain rs where q: "run_list ms s = (rs, s)" using b by (cases "run_list ms s") simp
  show ?case using p q by (simp split: sum.splits)
qed

lemma eval_node_st_frame_all: "\<forall>s. snd (eval_node_st I e s) = s"
proof (induction I e rule: eval_node_st.induct)
  case (3 I opr operand)
  show ?case
  proof
    fix s
    show "snd (eval_node_st I (UnaryOp opr operand) s) = s"
    proof (cases "map_of (UNARYOPS_dict (module_globals s)) opr")
      case None
      then show ?thesis by simp
    next
      case (Some f0)
      have "snd (eval_node_st I operand s) = s" using 3 [OF Some] by simp
      then obtain r where p: "eval_node_st I operand s = (r, s)"
        by (cases "eval_node_st I operand s") simp
      show ?thesis using Some p by (simp split: sum.splits option.splits)
    qed
  qed
next
  case (4 I left opr right)
  show ?case
  proof
    fix s
    have "snd (eval_node_st I left s) = s" using 4(1) by simp
    then obtain r1 where p1: "eval_node_st I left s = (r1, s)"
      by (cases "eval_node_st I left s") simp
    show "snd (eval_node_st I (BinOp left opr right) s) = s"
    proof (cases r1)
      case (Inl e)
      then show ?thesis using p1 by simp
    next
      case (Inr l)
      have "(r1, s) = eval_node_st I left s" using p1 by simp
      then have "snd (eval_node_st I right s) = s" using 4(2) Inr by blast
      then obtain r2 where p2: "eval_node_st I right s = (r2, s)"
        by (cases "eval_node_st I right s") simp
      show ?thesis using p1 Inr p2 by (simp split: sum.splits option.splits)
    qed
  qed
next
  case (5 I func args kws)
  show ?case
  proof
    fix s
    show "snd (eval_node_st I (Call func args kws) s) = s"
    proof (cases func)
      case (Name fname ctx)
      show ?thesis
      proof (cases "map_of (ALLOWED_FUNCS_dict (module_globals s)) fname")
        case None
        then show ?thesis using Name by simp
      next
        case (Some f0)
        have "snd (run_list (map (\<lambda>a. eval_node_st I a) args) s) = s"
        proof (rule run_list_frame)
          fix m t
          assume "m \<in> set (map (\<lambda>a. eval_node_st I a) args)"
          then obtain a where a: "a \<in> set args" and m: "m = eval_node_st I a" by auto
          show "snd (m t) = t" using 5 [OF Name Some a] m by simp
        qed
        then obtain rs where q: "run_list (map (\<lambda>a. eval_node_st I a) args) s = (rs, s)"
          by (cases "run_list (map (\<lambda>a. eval_node_st I a) args) s") simp
        show ?thesis using Name Some q by (simp split: sum.splits option.splits)
      qed
    qed simp_all
  qed
qed simp_all

lemma eval_node_st_frame: "snd (eval_node_st I e s) = s"
  using eval_node_st_frame_all [of I e] by simp

lemma module_init_tables [simp]:
  "map_of (BINOPS_dict (module_init I)) = BINOPS I"
  "map_of (UNARYOPS_dict (module_init I)) = UNARYOPS I"
  "map_of (ALLOWED_FUNCS_dict (module_init I)) = ALLOWED_FUNCS I"
  "map_of (ALLOWED_CONSTS_dict (module_init I)) = ALLOWED_CONSTS I"
  by (simp_all add: module_init_def BINOPS_def UNARYOPS_def ALLOWED_FUNCS_def ALLOWED_CONSTS_def)

lemma run_list_sequence:
  "(\<And>a. a \<in> set xs \<Longrightarrow> m a s = (f a, s))
     \<Longrightarrow> run_list (map m xs) s = (sequence (map f xs), s)"
proof (induction xs)
  case Nil
  then show ?case by simp
next
  case (Cons a xs)
  have p: "m a s = (f a, s)" using Cons.prems by simp
  have q: "run_list (map m xs) s = (sequence (map f xs), s)" using Cons by simp
  show ?case using p q by (simp split: sum.splits)
qed

lemma eval_node_st_init:
  "eval_node_st I e \<lparr>module_globals = module_init I, names_dict = names\<rparr>
     = (eval_node I e names, \<lparr>module_globals = module_init I, names_dict = names\<rparr>)"
proof (induction I e names rule: eval_node.induct)
  case (3 I opr operand names)
  then show ?case by (simp split: option.splits sum.splits)
next
  case (4 I left opr right names)
  then show ?case by (simp split: option.splits sum.splits)
next
  case (5 I func args kws names)
  let ?s = "\<lparr>module_globals = module_init I, names_dict = names\<rparr>"
  show ?case
  proof (cases func)
    case (Name fname ctx)
    show ?thesis
    proof (cases "ALLOWED_FUNCS I fname")
      case None
      then show ?thesis using Name by simp
    next
      case (Some f)
      have "run_list (map (\<lambda>a. eval_node_st I a) args) ?s
          = (sequence (map (\<lambda>a. eval_node I a names) args), ?s)"
      proof (rule run_list_sequence)
        fix a
        assume a: "a \<in> set args"
        show "eval_node_st I a ?s = (eval_node I a names, ?s)" using 5 [OF Name Some a] .
      qed
      then show ?thesis using Name Some by (simp split: sum.splits)
    qed
  qed simp_all
qed (simp_all cong: option.case_cong)

section \<open>Running the examples\<close>

text \<open>The equations that evaluate an example on \<open>py311\<close>.\<close>

lemmas py311_eval = evaluate_def py311_parse_table_def walk_def BINOPS_def UNARYOPS_def
  op_add_def op_pow_def op_floordiv_def op_mod_def op_truediv_def op_neg_def
  int_binop_def int_unaryop_def ALLOWED_FUNCS_eq ALLOWED_FUNC_NAMES_def ALLOWED_CONSTS_def
  py311_repr_def py311_math_def py311_constant_def py311_float_binop_def raises_def

section \<open>Nothing outside the whitelist\<close>

text \<open>
  Claim C1, as the code has it. When the tree of an expression holds any construct outside
  the whitelist (an attribute access, a call of a name that is not in the function table, a
  call whose target is not a name, a keyword argument, a literal that is not a number, a
  node or operator of any other class), \<open>evaluate\<close> raises an exception and returns no
  value. And no function outside the whitelist is ever applied: the result of \<open>evaluate\<close>
  is the same whatever module \<^verbatim>\<open>math\<close> holds under names that are not in the table.
  The exception need not come from the parse or the validation stage: the function table
  is tested during evaluation, when the call is reached, so an evaluation error of an
  earlier operand comes first.
\<close>

theorem evaluate_stays_in_whitelist:
  "(ast_parse I s = Inr body \<and> \<not> whitelisted body
      \<longrightarrow> (\<exists>e. evaluate I (PyStr s) variables = Inl e))
   \<and> ((\<forall>name\<in>set ALLOWED_FUNC_NAMES. g name = math_function I name)
      \<longrightarrow> evaluate (I\<lparr>math_function := g\<rparr>) expr variables = evaluate I expr variables)"
proof (intro conjI impI)
  assume h: "ast_parse I s = Inr body \<and> \<not> whitelisted body"
  show "\<exists>e. evaluate I (PyStr s) variables = Inl e"
  proof (cases "evaluate I (PyStr s) variables")
    case (Inl e)
    then show ?thesis by simp
  next
    case (Inr r)
    then show ?thesis using evaluate_success [OF Inr] h by simp
  qed
next
  assume g: "\<forall>name\<in>set ALLOWED_FUNC_NAMES. g name = math_function I name"
  show "evaluate (I\<lparr>math_function := g\<rparr>) expr variables = evaluate I expr variables"
    by (simp add: evaluate_def eval_node_math_function [OF g]
        cong: pyval.case_cong sum.case_cong exn.case_cong option.case_cong)
qed

theorem evaluate_stays_in_whitelist_witness:
  "ast_parse py311 ''os.system('ls')''
     = Inr (Call (Attribute (Name ''os'' Load) ''system'' Load) [Constant (PyStr ''ls'')] [])
   \<and> \<not> whitelisted
         (Call (Attribute (Name ''os'' Load) ''system'' Load) [Constant (PyStr ''ls'')] [])
   \<and> (\<exists>e. evaluate py311 (PyStr ''os.system('ls')'') [] = Inl e)
   \<and> list_all (\<lambda>name. math_with_system name = math_function py311 name) ALLOWED_FUNC_NAMES
   \<and> math_with_system ''system'' [PyStr ''ls''] \<noteq> math_function py311 ''system'' [PyStr ''ls'']
   \<and> evaluate (py311\<lparr>math_function := math_with_system\<rparr>) (PyStr ''os.system('ls')'') []
       = evaluate py311 (PyStr ''os.system('ls')'') []"
proof -
  have p: "ast_parse py311 ''os.system('ls')''
     = Inr (Call (Attribute (Name ''os'' Load) ''system'' Load) [Constant (PyStr ''ls'')] [])"
    by (simp add: py311_parse_table_def)
  have w: "\<not> whitelisted
         (Call (Attribute (Name ''os'' Load) ''system'' Load) [Constant (PyStr ''ls'')] [])"
    by simp
  have g: "\<forall>name\<in>set ALLOWED_FUNC_NAMES. math_with_system name = math_function py311 name"
    by (simp add: ALLOWED_FUNC_NAMES_def math_with_system_def)
  have d: "math_with_system ''system'' [PyStr ''ls''] \<noteq> math_function py311 ''system'' [PyStr ''ls'']"
    by (simp add: math_with_system_def py311_math_def)
  show ?thesis
    using p w g d evaluate_stays_in_whitelist
      [of py311 "''os.system('ls')''"
        "Call (Attribute (Name ''os'' Load) ''system'' Load) [Constant (PyStr ''ls'')] []"
        "[]" math_with_system "PyStr ''os.system('ls')''"]
    by (simp add: list_all_iff)
qed

text \<open>
  \<^verbatim>\<open>evaluate("y + open('f')")\<close> calls a name outside the whitelist and fails with
  \<^verbatim>\<open>EvalError("Unknown identifier: y")\<close>, which the specification counts as an evaluation
  error, not as a parse or validation error.
\<close>

theorem error_stage_counterexample:
  "ast_parse py311 ''y + open('f')''
     = Inr (BinOp (Name ''y'' Load) Add (Call (Name ''open'' Load) [Constant (PyStr ''f'')] []))
   \<and> \<not> whitelisted
         (BinOp (Name ''y'' Load) Add (Call (Name ''open'' Load) [Constant (PyStr ''f'')] []))
   \<and> evaluate py311 (PyStr ''y + open('f')'') [] = Inl (EvalError ''Unknown identifier: y'')
   \<and> \<not> spec_parse_or_validation_stage (EvalError ''Unknown identifier: y'')"
  by (simp add: py311_eval spec_parse_or_validation_stage_def starts_with_def)

text \<open>The three examples of the specification.\<close>

lemma capability_examples:
  "evaluate py311 (PyStr ''os.system('ls')'') []
     = Inl (EvalError ''Disallowed expression element: <class 'ast.Attribute'>'')"
  "evaluate py311 (PyStr ''__import__('os')'') []
     = Inl (EvalError ''Function not allowed: __import__'')"
  "evaluate py311 (PyStr ''open('f')'') [] = Inl (EvalError ''Function not allowed: open'')"
  by (simp_all add: py311_eval)

section \<open>Arithmetic on integers\<close>

text \<open>
  Claim C2. \<^verbatim>\<open>evaluate("2 + 3")\<close> is 5; \<^verbatim>\<open>evaluate("2 ** 3 ** 2")\<close> is 512, the power being
  parsed to the right; \<^verbatim>\<open>evaluate("-7 // 2")\<close> is -4 and \<^verbatim>\<open>evaluate("-7 % 2")\<close> is 1. Each
  holds for every interpreter whose parser gives the tree Python's grammar gives the string.
  For all integer operands with a divisor other than zero, \<^verbatim>\<open>//\<close> and \<^verbatim>\<open>%\<close> return the
  floored quotient \<open>q\<close> and the remainder \<open>m\<close>: \<open>a = q * b + m\<close>, and \<open>m\<close> is zero or has the
  sign of the divisor and is smaller than it in absolute value.
\<close>

theorem arithmetic_examples:
  "(ast_parse I ''2 + 3'' = Inr (BinOp (Constant (PyInt 2)) Add (Constant (PyInt 3)))
      \<longrightarrow> evaluate I (PyStr ''2 + 3'') variables = Inr (PyInt 5))
   \<and> (ast_parse I ''2 ** 3 ** 2''
        = Inr (BinOp (Constant (PyInt 2)) Pow_op
                 (BinOp (Constant (PyInt 3)) Pow_op (Constant (PyInt 2))))
      \<longrightarrow> evaluate I (PyStr ''2 ** 3 ** 2'') variables = Inr (PyInt 512))
   \<and> (ast_parse I ''-7 // 2''
        = Inr (BinOp (UnaryOp USub (Constant (PyInt 7))) FloorDiv (Constant (PyInt 2)))
      \<longrightarrow> evaluate I (PyStr ''-7 // 2'') variables = Inr (PyInt (- 4)))
   \<and> (ast_parse I ''-7 % 2''
        = Inr (BinOp (UnaryOp USub (Constant (PyInt 7))) Mod (Constant (PyInt 2)))
      \<longrightarrow> evaluate I (PyStr ''-7 % 2'') variables = Inr (PyInt 1))
   \<and> (eval_node I left variables = Inr (PyInt a) \<and> eval_node I right variables = Inr (PyInt b)
        \<and> b \<noteq> 0
      \<longrightarrow> (\<exists>q m. eval_node I (BinOp left FloorDiv right) variables = Inr (PyInt q)
            \<and> eval_node I (BinOp left Mod right) variables = Inr (PyInt m)
            \<and> a = q * b + m
            \<and> (0 < b \<longrightarrow> 0 \<le> m \<and> m < b)
            \<and> (b < 0 \<longrightarrow> b < m \<and> m \<le> 0)))"
proof (intro conjI impI)
  assume "ast_parse I ''2 + 3'' = Inr (BinOp (Constant (PyInt 2)) Add (Constant (PyInt 3)))"
  then show "evaluate I (PyStr ''2 + 3'') variables = Inr (PyInt 5)"
    by (simp add: evaluate_def walk_def BINOPS_def op_add_def int_binop_def)
next
  assume "ast_parse I ''2 ** 3 ** 2''
        = Inr (BinOp (Constant (PyInt 2)) Pow_op
                 (BinOp (Constant (PyInt 3)) Pow_op (Constant (PyInt 2))))"
  then show "evaluate I (PyStr ''2 ** 3 ** 2'') variables = Inr (PyInt 512)"
    by (simp add: evaluate_def walk_def BINOPS_def op_pow_def int_binop_def)
next
  assume "ast_parse I ''-7 // 2''
        = Inr (BinOp (UnaryOp USub (Constant (PyInt 7))) FloorDiv (Constant (PyInt 2)))"
  then show "evaluate I (PyStr ''-7 // 2'') variables = Inr (PyInt (- 4))"
    by (simp add: evaluate_def walk_def BINOPS_def UNARYOPS_def op_floordiv_def op_neg_def
        int_binop_def int_unaryop_def)
next
  assume "ast_parse I ''-7 % 2''
        = Inr (BinOp (UnaryOp USub (Constant (PyInt 7))) Mod (Constant (PyInt 2)))"
  then show "evaluate I (PyStr ''-7 % 2'') variables = Inr (PyInt 1)"
    by (simp add: evaluate_def walk_def BINOPS_def UNARYOPS_def op_mod_def op_neg_def
        int_binop_def int_unaryop_def)
next
  assume h: "eval_node I left variables = Inr (PyInt a)
      \<and> eval_node I right variables = Inr (PyInt b) \<and> b \<noteq> 0"
  then have fd: "eval_node I (BinOp left FloorDiv right) variables = Inr (PyInt (a div b))"
    and md: "eval_node I (BinOp left Mod right) variables = Inr (PyInt (a mod b))"
    by (simp_all add: BINOPS_def op_floordiv_def op_mod_def int_binop_def)
  have "a = (a div b) * b + a mod b" by simp
  moreover have "0 < b \<longrightarrow> 0 \<le> a mod b \<and> a mod b < b" by simp
  moreover have "b < 0 \<longrightarrow> b < a mod b \<and> a mod b \<le> 0" by simp
  ultimately show "\<exists>q m. eval_node I (BinOp left FloorDiv right) variables = Inr (PyInt q)
            \<and> eval_node I (BinOp left Mod right) variables = Inr (PyInt m)
            \<and> a = q * b + m
            \<and> (0 < b \<longrightarrow> 0 \<le> m \<and> m < b)
            \<and> (b < 0 \<longrightarrow> b < m \<and> m \<le> 0)"
    using fd md by blast
qed

theorem arithmetic_examples_witness:
  "ast_parse py311 ''2 + 3'' = Inr (BinOp (Constant (PyInt 2)) Add (Constant (PyInt 3)))
   \<and> evaluate py311 (PyStr ''2 + 3'') [] = Inr (PyInt 5)
   \<and> ast_parse py311 ''2 ** 3 ** 2''
        = Inr (BinOp (Constant (PyInt 2)) Pow_op
                 (BinOp (Constant (PyInt 3)) Pow_op (Constant (PyInt 2))))
   \<and> evaluate py311 (PyStr ''2 ** 3 ** 2'') [] = Inr (PyInt 512)
   \<and> ast_parse py311 ''-7 // 2''
        = Inr (BinOp (UnaryOp USub (Constant (PyInt 7))) FloorDiv (Constant (PyInt 2)))
   \<and> evaluate py311 (PyStr ''-7 // 2'') [] = Inr (PyInt (- 4))
   \<and> ast_parse py311 ''-7 % 2''
        = Inr (BinOp (UnaryOp USub (Constant (PyInt 7))) Mod (Constant (PyInt 2)))
   \<and> evaluate py311 (PyStr ''-7 % 2'') [] = Inr (PyInt 1)
   \<and> eval_node py311 (Constant (PyInt (- 7))) [] = Inr (PyInt (- 7))
   \<and> eval_node py311 (Constant (PyInt (- 2))) [] = Inr (PyInt (- 2))
   \<and> (- 2 :: int) \<noteq> 0
   \<and> (\<exists>q m. eval_node py311 (BinOp (Constant (PyInt (- 7))) FloorDiv (Constant (PyInt (- 2)))) []
              = Inr (PyInt q)
          \<and> eval_node py311 (BinOp (Constant (PyInt (- 7))) Mod (Constant (PyInt (- 2)))) []
              = Inr (PyInt m)
          \<and> - 7 = q * (- 2) + m \<and> - 2 < m \<and> m \<le> 0)"
proof -
  have p: "ast_parse py311 ''2 + 3'' = Inr (BinOp (Constant (PyInt 2)) Add (Constant (PyInt 3)))"
    "ast_parse py311 ''2 ** 3 ** 2''
        = Inr (BinOp (Constant (PyInt 2)) Pow_op
                 (BinOp (Constant (PyInt 3)) Pow_op (Constant (PyInt 2))))"
    "ast_parse py311 ''-7 // 2''
        = Inr (BinOp (UnaryOp USub (Constant (PyInt 7))) FloorDiv (Constant (PyInt 2)))"
    "ast_parse py311 ''-7 % 2''
        = Inr (BinOp (UnaryOp USub (Constant (PyInt 7))) Mod (Constant (PyInt 2)))"
    by (simp_all add: py311_parse_table_def)
  have c: "eval_node py311 (Constant (PyInt (- 7))) [] = Inr (PyInt (- 7))"
    "eval_node py311 (Constant (PyInt (- 2))) [] = Inr (PyInt (- 2))"
    by simp_all
  show ?thesis
    using p c arithmetic_examples
      [of py311 "[]" "Constant (PyInt (- 7))" "- 7" "Constant (PyInt (- 2))" "- 2"]
    by simp
qed

section \<open>Division by zero\<close>

text \<open>
  Claim C3, as the code has it. For every pair of numeric operands (integer, \<^verbatim>\<open>bool\<close>,
  float or complex) of which the right one is a zero, a division \<^verbatim>\<open>/\<close>, a modulo \<^verbatim>\<open>%\<close>
  and a floor division \<^verbatim>\<open>//\<close> raise an exception of the interpreter, which the evaluator
  passes on as it is: no value (no infinity, no NaN) is returned, and the exception is never
  an \<^verbatim>\<open>EvalError\<close>. The exception is \<^verbatim>\<open>ZeroDivisionError\<close>, with two exceptions: \<^verbatim>\<open>%\<close> and
  \<^verbatim>\<open>//\<close> raise \<^verbatim>\<open>TypeError\<close> when an operand is complex, and an integer left operand that
  has no float raises \<^verbatim>\<open>OverflowError\<close> when the zero is a float or a complex number.
\<close>

theorem division_by_zero_raises:
  "eval_node I left names = Inr x \<and> eval_node I right names = Inr y
     \<and> isinstance_number x \<and> isinstance_number y \<and> is_zero y
   \<longrightarrow> eval_node I (BinOp left Div right) names
           = (if too_large_for_float x \<and> as_int y = None then Inl float_overflow
              else Inl ZeroDivisionError)
       \<and> eval_node I (BinOp left Mod right) names
           = (if is_complex x \<or> is_complex y
              then Inl (TypeError (operand_type_error I Mod x y))
              else if too_large_for_float x \<and> as_int y = None then Inl float_overflow
              else Inl ZeroDivisionError)
       \<and> eval_node I (BinOp left FloorDiv right) names
           = (if is_complex x \<or> is_complex y
              then Inl (TypeError (operand_type_error I FloorDiv x y))
              else if too_large_for_float x \<and> as_int y = None then Inl float_overflow
              else Inl ZeroDivisionError)
       \<and> \<not> raises ''EvalError'' (eval_node I (BinOp left Div right) names)
       \<and> \<not> raises ''EvalError'' (eval_node I (BinOp left Mod right) names)
       \<and> \<not> raises ''EvalError'' (eval_node I (BinOp left FloorDiv right) names)"
  by (simp add: BINOPS_def op_truediv_def op_mod_def op_floordiv_def zero_division_def
      float_overflow_def raises_def)

theorem division_by_zero_raises_witness:
  "eval_node py311 (Constant (PyFloat 0x3FF8000000000000)) [] = Inr (PyFloat 0x3FF8000000000000)
   \<and> eval_node py311 (Constant (PyFloat 0x8000000000000000)) []
       = Inr (PyFloat 0x8000000000000000)
   \<and> isinstance_number (PyFloat 0x3FF8000000000000)
   \<and> isinstance_number (PyFloat 0x8000000000000000)
   \<and> is_zero (PyFloat 0x8000000000000000)
   \<and> eval_node py311
         (BinOp (Constant (PyFloat 0x3FF8000000000000)) Div (Constant (PyFloat 0x8000000000000000)))
         []
       = Inl ZeroDivisionError
   \<and> eval_node py311
         (BinOp (Constant (PyFloat 0x3FF8000000000000)) Mod (Constant (PyFloat 0x8000000000000000)))
         []
       = Inl ZeroDivisionError
   \<and> eval_node py311
         (BinOp (Constant (PyFloat 0x3FF8000000000000)) FloorDiv
            (Constant (PyFloat 0x8000000000000000)))
         []
       = Inl ZeroDivisionError"
  using division_by_zero_raises
      [of py311 "Constant (PyFloat 0x3FF8000000000000)" "[]" "PyFloat 0x3FF8000000000000"
        "Constant (PyFloat 0x8000000000000000)" "PyFloat 0x8000000000000000"]
  by (simp add: float_is_zero_def)

text \<open>
  \<^verbatim>\<open>evaluate("1/0")\<close> raises \<^verbatim>\<open>ZeroDivisionError\<close>, which is not an \<^verbatim>\<open>EvalError\<close>, and so
  does a division by the float zero; \<^verbatim>\<open>evaluate("2j % 0")\<close> raises \<^verbatim>\<open>TypeError\<close>, and
  \<^verbatim>\<open>evaluate("2**1024 / 0.0")\<close> raises \<^verbatim>\<open>OverflowError\<close>.
\<close>

theorem division_by_zero_counterexample:
  "evaluate py311 (PyStr ''1/0'') [] = Inl ZeroDivisionError
   \<and> evaluate py311 (PyStr ''1 % 0'') [] = Inl ZeroDivisionError
   \<and> evaluate py311 (PyStr ''1.5 / 0.0'') [] = Inl ZeroDivisionError
   \<and> \<not> raises ''EvalError'' (evaluate py311 (PyStr ''1/0'') [])
   \<and> evaluate py311 (PyStr ''2j % 0'') []
       = Inl (TypeError (''unsupported operand type(s) for %: 'complex' and 'int'' @ [CHR 0x27]))
   \<and> evaluate py311 (PyStr ''2**1024 / 0.0'') []
       = Inl (OtherException ''OverflowError'' ''int too large to convert to float'')"
  by (simp add: py311_eval float_is_zero_def py311_operand_type_error_def zero_division_def
      float_overflow_def)

section \<open>Arguments outside the domain of a function\<close>

text \<open>
  Claim C4, as the code has it. The evaluator has no domain test and converts no exception.
  A call of a whitelisted function returns or raises exactly what the function of module
  \<^verbatim>\<open>math\<close> returns or raises on the evaluated arguments, and a power with an operand that
  is not an integer returns or raises exactly what the interpreter's power does. So
  \<^verbatim>\<open>sqrt(-1)\<close> raises the \<^verbatim>\<open>ValueError\<close> of \<^verbatim>\<open>math.sqrt\<close>, which is not an \<^verbatim>\<open>EvalError\<close>,
  and a negative base with a fractional exponent gives the complex number Python computes.
\<close>

theorem results_pass_through:
  "(fname \<in> set ALLOWED_FUNC_NAMES
      \<and> sequence (map (\<lambda>a. eval_node I a names) args) = Inr vs
      \<longrightarrow> eval_node I (Call (Name fname ctx) args kws) names = math_function I fname vs)
   \<and> (eval_node I left names = Inr x \<and> eval_node I right names = Inr y
      \<and> (as_int x = None \<or> as_int y = None)
      \<longrightarrow> eval_node I (BinOp left Pow_op right) names = float_binop I Pow_op x y)"
  by (auto simp add: ALLOWED_FUNCS_eq BINOPS_def op_pow_def int_binop_def split: option.splits)

theorem results_pass_through_witness:
  "''sqrt'' \<in> set ALLOWED_FUNC_NAMES
   \<and> sequence (map (\<lambda>a. eval_node py311 a []) [UnaryOp USub (Constant (PyInt 1))])
       = Inr [PyInt (- 1)]
   \<and> eval_node py311 (Call (Name ''sqrt'' Load) [UnaryOp USub (Constant (PyInt 1))] []) []
       = Inl (ValueError ''math domain error'')
   \<and> eval_node py311 (UnaryOp USub (Constant (PyInt 8))) [] = Inr (PyInt (- 8))
   \<and> eval_node py311 (Constant (PyFloat 0x3FE0000000000000)) []
       = Inr (PyFloat 0x3FE0000000000000)
   \<and> as_int (PyFloat 0x3FE0000000000000) = None
   \<and> eval_node py311
        (BinOp (UnaryOp USub (Constant (PyInt 8))) Pow_op (Constant (PyFloat 0x3FE0000000000000)))
        []
       = Inr (PyComplex 0x3CA8F5A0BE038ED7 0x4006A09E667F3BCD)"
proof -
  have s: "sequence (map (\<lambda>a. eval_node py311 a []) [UnaryOp USub (Constant (PyInt 1))])
       = Inr [PyInt (- 1)]"
    by (simp add: UNARYOPS_def op_neg_def int_unaryop_def)
  have l: "eval_node py311 (UnaryOp USub (Constant (PyInt 8))) [] = Inr (PyInt (- 8))"
    by (simp add: UNARYOPS_def op_neg_def int_unaryop_def)
  have r: "eval_node py311 (Constant (PyFloat 0x3FE0000000000000)) []
       = Inr (PyFloat 0x3FE0000000000000)"
    by simp
  show ?thesis
    using s l r results_pass_through
      [of "''sqrt''" py311 "[]" "[UnaryOp USub (Constant (PyInt 1))]" "[PyInt (- 1)]" Load "[]"
        "UnaryOp USub (Constant (PyInt 8))" "PyInt (- 8)" "Constant (PyFloat 0x3FE0000000000000)"
        "PyFloat 0x3FE0000000000000"]
    by (simp add: ALLOWED_FUNC_NAMES_def py311_math_def py311_float_binop_def)
qed

text \<open>
  \<^verbatim>\<open>evaluate("sqrt(-1)")\<close> raises \<^verbatim>\<open>ValueError("math domain error")\<close>, and
  \<^verbatim>\<open>evaluate("(-8) ** 0.5")\<close> raises nothing: it returns a complex number.
\<close>

theorem domain_error_counterexample:
  "evaluate py311 (PyStr ''sqrt(-1)'') [] = Inl (ValueError ''math domain error'')
   \<and> \<not> raises ''EvalError'' (evaluate py311 (PyStr ''sqrt(-1)'') [])
   \<and> evaluate py311 (PyStr ''(-8) ** 0.5'') []
       = Inr (PyComplex 0x3CA8F5A0BE038ED7 0x4006A09E667F3BCD)"
  by (simp add: py311_eval)

section \<open>Calls\<close>

text \<open>
  Claim C5, as the code has it. A call whose target is not a plain name (the result of
  another call, an attribute, ...) fails with \<^verbatim>\<open>EvalError("Only direct function calls are
  allowed")\<close>. A call of a name that is not in the function table fails with
  \<^verbatim>\<open>EvalError("Function not allowed: <name>")\<close>, whatever its arguments are: they are not
  evaluated and no function is applied. A call of a whitelisted name evaluates the arguments
  from left to right and applies the table's function to the values. The claim names the
  exception \<^verbatim>\<open>ValidationError\<close> and writes the message with a small f; the module raises
  its one exception class, \<^verbatim>\<open>EvalError\<close>, and the message starts with a capital.
\<close>

theorem call_checks:
  "((\<forall>fname ctx. func \<noteq> Name fname ctx)
      \<longrightarrow> eval_node I (Call func args kws) names
          = Inl (EvalError ''Only direct function calls are allowed''))
   \<and> (fname \<notin> set ALLOWED_FUNC_NAMES
      \<longrightarrow> eval_node I (Call (Name fname ctx) args kws) names
          = Inl (EvalError (''Function not allowed: '' @ fname)))
   \<and> (fname \<in> set ALLOWED_FUNC_NAMES
      \<longrightarrow> eval_node I (Call (Name fname ctx) args kws) names
          = (case sequence (map (\<lambda>a. eval_node I a names) args) of
               Inl e \<Rightarrow> Inl e
             | Inr vs \<Rightarrow> math_function I fname vs))"
  by (cases func) (simp_all add: ALLOWED_FUNCS_eq)

theorem call_checks_witness:
  "(\<forall>fname ctx. Call (Name ''f'' Load) [] [] \<noteq> Name fname ctx)
   \<and> eval_node py311 (Call (Call (Name ''f'' Load) [] []) [] []) []
       = Inl (EvalError ''Only direct function calls are allowed'')
   \<and> ''open'' \<notin> set ALLOWED_FUNC_NAMES
   \<and> eval_node py311 (Call (Name ''open'' Load) [Constant (PyStr ''f'')] []) []
       = Inl (EvalError ''Function not allowed: open'')
   \<and> ''factorial'' \<in> set ALLOWED_FUNC_NAMES
   \<and> eval_node py311 (Call (Name ''factorial'' Load) [Constant (PyInt 3)] []) []
       = Inr (PyInt 6)"
  using call_checks [of "Call (Name ''f'' Load) [] []" py311 "[]" "[]" "[]" "''open''" Load]
    call_checks [of "Call (Name ''f'' Load) [] []" py311 "[Constant (PyStr ''f'')]" "[]" "[]"
      "''open''" Load]
    call_checks [of "Call (Name ''f'' Load) [] []" py311 "[Constant (PyInt 3)]" "[]" "[]"
      "''factorial''" Load]
  by (simp add: ALLOWED_FUNC_NAMES_def py311_math_def fact_numeral)

text \<open>
  \<^verbatim>\<open>evaluate("open('f')")\<close>: the exception is an \<^verbatim>\<open>EvalError\<close> and its message is not the
  one of the claim.
\<close>

theorem function_not_allowed_counterexample:
  "evaluate py311 (PyStr ''open('f')'') [] = Inl (EvalError ''Function not allowed: open'')
   \<and> evaluate py311 (PyStr ''open('f')'') [] \<noteq> Inl (EvalError ''function not allowed: open'')
   \<and> \<not> raises ''ValidationError'' (evaluate py311 (PyStr ''open('f')'') [])"
  by (simp add: py311_eval)

section \<open>Identifiers\<close>

text \<open>
  Claim C6, as the code has it. An identifier is looked up in the caller's variables first
  (so a variable \<^verbatim>\<open>pi\<close> shadows the constant); only when it is absent there is the constant
  table consulted; a name in neither fails with \<^verbatim>\<open>EvalError("Unknown identifier: <name>")\<close>.
  The claim writes the message with a small u; the program's message starts with a capital.
\<close>

theorem name_resolution:
  "(map_of names ident = Some v \<longrightarrow> eval_node I (Name ident ctx) names = Inr v)
   \<and> (map_of names ident = None \<and> ident \<in> {''pi'', ''e'', ''tau'', ''inf'', ''nan''}
        \<longrightarrow> eval_node I (Name ident ctx) names = Inr (math_constant I ident))
   \<and> (map_of names ident = None \<and> ident \<notin> {''pi'', ''e'', ''tau'', ''inf'', ''nan''}
        \<longrightarrow> eval_node I (Name ident ctx) names
            = Inl (EvalError (''Unknown identifier: '' @ ident)))"
  by (auto simp add: ALLOWED_CONSTS_def)

theorem name_resolution_witness:
  "map_of [(''pi'', PyInt 3)] ''pi'' = Some (PyInt 3)
   \<and> eval_node py311 (Name ''pi'' Load) [(''pi'', PyInt 3)] = Inr (PyInt 3)
   \<and> map_of [(''x'', PyInt 3)] ''pi'' = None
   \<and> ''pi'' \<in> {''pi'', ''e'', ''tau'', ''inf'', ''nan''}
   \<and> eval_node py311 (Name ''pi'' Load) [(''x'', PyInt 3)] = Inr (PyFloat 0x400921FB54442D18)
   \<and> map_of [(''x'', PyInt 3)] ''y'' = None
   \<and> ''y'' \<notin> {''pi'', ''e'', ''tau'', ''inf'', ''nan''}
   \<and> eval_node py311 (Name ''y'' Load) [(''x'', PyInt 3)]
       = Inl (EvalError ''Unknown identifier: y'')"
  using name_resolution [of "[(''pi'', PyInt 3)]" "''pi''" "PyInt 3" py311 Load]
    name_resolution [of "[(''x'', PyInt 3)]" "''pi''" "PyInt 3" py311 Load]
    name_resolution [of "[(''x'', PyInt 3)]" "''y''" "PyInt 3" py311 Load]
  by (simp add: py311_constant_def)

text \<open>The message of the claim is not the message raised.\<close>

theorem unknown_identifier_message_counterexample:
  "evaluate py311 (PyStr ''y'') [] = Inl (EvalError ''Unknown identifier: y'')
   \<and> evaluate py311 (PyStr ''y'') [] \<noteq> Inl (EvalError ''unknown identifier: y'')"
  by (simp add: py311_eval)

section \<open>Malformed input\<close>

text \<open>
  Claim C7, as the code has it. For every input string on which the parser raises
  \<^verbatim>\<open>SyntaxError\<close>, \<open>evaluate\<close> fails with the module's \<^verbatim>\<open>EvalError\<close> whose message is
  \<^verbatim>\<open>"Syntax error: "\<close> followed by the parser's message; no value is returned. The claim names
  the exception \<^verbatim>\<open>ParseError\<close>; the module declares one exception class only, \<^verbatim>\<open>EvalError\<close>,
  and that is the class raised.
\<close>

theorem syntax_error_becomes_EvalError:
  "ast_parse I s = Inl (SyntaxError msg) \<Longrightarrow>
   evaluate I (PyStr s) variables = Inl (EvalError (''Syntax error: '' @ msg))"
  by (simp add: evaluate_def)

theorem syntax_error_becomes_EvalError_witness:
  "ast_parse py311 ''('' = Inl (SyntaxError '''(' was never closed (<unknown>, line 1)'')
   \<and> evaluate py311 (PyStr ''('') []
       = Inl (EvalError ''Syntax error: '(' was never closed (<unknown>, line 1)'')"
  using syntax_error_becomes_EvalError
    [of py311 "''(''" "'''(' was never closed (<unknown>, line 1)''" "[]"]
  by (simp add: py311_parse_table_def)

text \<open>
  The empty string: the exception raised is an \<^verbatim>\<open>EvalError\<close>, not a \<^verbatim>\<open>ParseError\<close>.
\<close>

theorem ParseError_counterexample:
  "evaluate py311 (PyStr '''') []
     = Inl (EvalError ''Syntax error: invalid syntax (<unknown>, line 0)'')
   \<and> \<not> raises ''ParseError'' (evaluate py311 (PyStr '''') [])
   \<and> raises ''EvalError'' (evaluate py311 (PyStr '''') [])"
  by (simp add: py311_eval)

text \<open>
  Only \<^verbatim>\<open>SyntaxError\<close> is caught: any other exception of the parser (CPython raises
  \<^verbatim>\<open>UnicodeEncodeError\<close> for a string that holds a lone surrogate, and \<^verbatim>\<open>RecursionError\<close> for
  a very long expression) leaves \<open>evaluate\<close> as it is.
\<close>

lemma parser_exception_passes_through:
  "ast_parse I s = Inl x \<Longrightarrow> \<forall>msg. x \<noteq> SyntaxError msg \<Longrightarrow>
   evaluate I (PyStr s) variables = Inl x"
  by (cases x) (simp_all add: evaluate_def)

section \<open>Repeated evaluation\<close>

text \<open>
  Claim C8. A call of \<open>evaluate\<close> changes no state: whatever the four dictionaries of the
  module hold when the call starts, it leaves them as it found them, and it leaves the
  dictionary of variables as the caller gave it. So nothing is carried from one call to the
  next, and a second call with the same expression and the same variables, run in the state
  the first call left, returns the identical result. From the dictionaries the module
  builds at import, the result is the one \<open>evaluate\<close> gives.
\<close>

theorem evaluate_changes_no_state:
  "(evaluate_st I expr variables g = (r, g1, variables1)
      \<longrightarrow> g1 = g \<and> variables1 = variables
          \<and> evaluate_st I expr variables1 g1 = (r, g1, variables1))
   \<and> evaluate_st I expr variables (module_init I)
       = (evaluate I expr variables, module_init I, variables)"
proof (intro conjI impI)
  assume h: "evaluate_st I expr variables g = (r, g1, variables1)"
  have "snd (evaluate_st I expr variables g) = (g, variables)"
    by (simp add: evaluate_st_def case_prod_beta eval_node_st_frame
        split: pyval.splits sum.splits exn.splits option.splits)
  then show g: "g1 = g" and v: "variables1 = variables" using h by simp_all
  show "evaluate_st I expr variables1 g1 = (r, g1, variables1)" using h g v by simp
next
  show "evaluate_st I expr variables (module_init I)
      = (evaluate I expr variables, module_init I, variables)"
    by (simp add: evaluate_st_def evaluate_def eval_node_st_init
        split: pyval.splits sum.splits exn.splits option.splits)
qed

theorem evaluate_changes_no_state_witness:
  "evaluate_st py311 (PyStr ''x + y'') [(''x'', PyInt 1), (''y'', PyInt 2)] (module_init py311)
     = (Inr (PyInt 3), module_init py311, [(''x'', PyInt 1), (''y'', PyInt 2)])"
proof -
  have "evaluate py311 (PyStr ''x + y'') [(''x'', PyInt 1), (''y'', PyInt 2)] = Inr (PyInt 3)"
    by (simp add: py311_eval)
  then show ?thesis
    using evaluate_changes_no_state
      [of py311 "PyStr ''x + y''" "[(''x'', PyInt 1), (''y'', PyInt 2)]" "module_init py311"
        "Inr (PyInt 3)" "module_init py311" "[(''x'', PyInt 1), (''y'', PyInt 2)]"]
    by simp
qed

section \<open>The argument that is not a string\<close>

text \<open>
  Claim C9. For every argument \<open>expr\<close> that is not a string, \<open>evaluate\<close> raises
  \<^verbatim>\<open>TypeError("expr must be a string")\<close>. The result is the same for every interpreter and
  every variable mapping: the parser, the walk and the evaluator are not consulted. The
  exception is a \<^verbatim>\<open>TypeError\<close>, not an \<^verbatim>\<open>EvalError\<close>.
\<close>

theorem evaluate_non_string_TypeError:
  "(\<forall>s. expr \<noteq> PyStr s) \<Longrightarrow>
   evaluate I expr variables = Inl (TypeError ''expr must be a string'')"
  by (cases expr) (simp_all add: evaluate_def)

theorem evaluate_non_string_TypeError_witness:
  "(\<forall>s. PyInt 5 \<noteq> PyStr s)
   \<and> evaluate py311 (PyInt 5) [] = Inl (TypeError ''expr must be a string'')"
  using evaluate_non_string_TypeError [of "PyInt 5" py311 "[]"] by simp

section \<open>Literals\<close>

text \<open>
  Claim C10. A literal node evaluates to its stored value exactly when the value passes
  \<^verbatim>\<open>isinstance(value, (int, float, complex))\<close>, which a \<^verbatim>\<open>bool\<close> does as well, being an
  \<^verbatim>\<open>int\<close> in Python; so a complex literal such as \<^verbatim>\<open>2j\<close> evaluates to itself. A literal
  holding any other value (a string, bytes, \<^verbatim>\<open>None\<close>, \<^verbatim>\<open>Ellipsis\<close>) raises
  \<^verbatim>\<open>EvalError("Unsupported constant: <repr of the value>")\<close>. Such a value never reaches an
  operator or a function: as an operand or an argument, the literal ends the evaluation with
  that error (or an earlier error of an operand or argument evaluated before it) and the
  operator or function is not applied.
\<close>

theorem literal_evaluation:
  "(isinstance_number v
      \<longleftrightarrow> (\<exists>b. v = PyBool b) \<or> (\<exists>i. v = PyInt i) \<or> (\<exists>x. v = PyFloat x)
          \<or> (\<exists>re im. v = PyComplex re im))
   \<and> (eval_node I (Constant v) names = Inr w \<longleftrightarrow> isinstance_number v \<and> w = v)
   \<and> (\<not> isinstance_number v
      \<longrightarrow> eval_node I (Constant v) names
            = Inl (EvalError (''Unsupported constant: '' @ repr I v))
        \<and> eval_node I (UnaryOp uopr (Constant v)) names
            = (case UNARYOPS I uopr of
                 Some f \<Rightarrow> Inl (EvalError (''Unsupported constant: '' @ repr I v))
               | None \<Rightarrow>
                   Inl (EvalError
                     (''Unsupported unary operator: '' @ str_type I (unaryop_class uopr))))
        \<and> eval_node I (BinOp (Constant v) opr right) names
            = Inl (EvalError (''Unsupported constant: '' @ repr I v))
        \<and> eval_node I (BinOp left opr (Constant v)) names
            = (case eval_node I left names of
                 Inl e \<Rightarrow> Inl e
               | Inr l \<Rightarrow> Inl (EvalError (''Unsupported constant: '' @ repr I v)))
        \<and> (fname \<in> set ALLOWED_FUNC_NAMES
            \<longrightarrow> eval_node I (Call (Name fname ctx) (before @ Constant v # after) kws) names
                = (case sequence (map (\<lambda>a. eval_node I a names) before) of
                     Inl e \<Rightarrow> Inl e
                   | Inr vs \<Rightarrow> Inl (EvalError (''Unsupported constant: '' @ repr I v)))))"
proof (intro conjI impI)
  show "isinstance_number v
      \<longleftrightarrow> (\<exists>b. v = PyBool b) \<or> (\<exists>i. v = PyInt i) \<or> (\<exists>x. v = PyFloat x)
          \<or> (\<exists>re im. v = PyComplex re im)"
    by (cases v) simp_all
  show "eval_node I (Constant v) names = Inr w \<longleftrightarrow> isinstance_number v \<and> w = v"
    by auto
next
  assume n: "\<not> isinstance_number v"
  then show "eval_node I (Constant v) names
      = Inl (EvalError (''Unsupported constant: '' @ repr I v))"
    by simp
  from n show "eval_node I (UnaryOp uopr (Constant v)) names
            = (case UNARYOPS I uopr of
                 Some f \<Rightarrow> Inl (EvalError (''Unsupported constant: '' @ repr I v))
               | None \<Rightarrow>
                   Inl (EvalError
                     (''Unsupported unary operator: '' @ str_type I (unaryop_class uopr))))"
    by (simp split: option.splits)
  from n show "eval_node I (BinOp (Constant v) opr right) names
            = Inl (EvalError (''Unsupported constant: '' @ repr I v))"
    by simp
  from n show "eval_node I (BinOp left opr (Constant v)) names
            = (case eval_node I left names of
                 Inl e \<Rightarrow> Inl e
               | Inr l \<Rightarrow> Inl (EvalError (''Unsupported constant: '' @ repr I v)))"
    by (simp split: sum.splits)
next
  assume n: "\<not> isinstance_number v" and f: "fname \<in> set ALLOWED_FUNC_NAMES"
  then show "eval_node I (Call (Name fname ctx) (before @ Constant v # after) kws) names
                = (case sequence (map (\<lambda>a. eval_node I a names) before) of
                     Inl e \<Rightarrow> Inl e
                   | Inr vs \<Rightarrow> Inl (EvalError (''Unsupported constant: '' @ repr I v)))"
    by (simp add: ALLOWED_FUNCS_eq sequence_append_Inl split: sum.splits)
qed

theorem literal_evaluation_witness:
  "eval_node py311 (Constant (PyComplex 0 0x4000000000000000)) []
     = Inr (PyComplex 0 0x4000000000000000)
   \<and> isinstance_number (PyComplex 0 0x4000000000000000)
   \<and> \<not> isinstance_number (PyStr ''ls'')
   \<and> eval_node py311 (Constant (PyStr ''ls'')) []
       = Inl (EvalError (''Unsupported constant: '' @ CHR 0x27 # ''ls'' @ [CHR 0x27]))
   \<and> eval_node py311 (BinOp (Constant (PyInt 1)) Add (Constant (PyStr ''ls''))) []
       = Inl (EvalError (''Unsupported constant: '' @ CHR 0x27 # ''ls'' @ [CHR 0x27]))
   \<and> ''sqrt'' \<in> set ALLOWED_FUNC_NAMES
   \<and> eval_node py311 (Call (Name ''sqrt'' Load) [Constant (PyStr ''ls'')] []) []
       = Inl (EvalError (''Unsupported constant: '' @ CHR 0x27 # ''ls'' @ [CHR 0x27]))"
  using literal_evaluation
      [of "PyComplex 0 0x4000000000000000" py311 "[]" "PyComplex 0 0x4000000000000000"]
    literal_evaluation
      [of "PyStr ''ls''" py311 "[]" "PyInt 0" USub Add "Constant (PyInt 1)" "Constant (PyInt 1)"
        "''sqrt''" Load "[]" "[]" "[]"]
  by (simp add: py311_repr_def ALLOWED_FUNC_NAMES_def)

end
